theory Spec2Isabelle
  imports Main "HOL-Library.Word" "HOL-Library.Multiset"
begin

unbundle bit_operations_syntax

section \<open>Strings\<close>

text \<open>
  A Go string is a sequence of bytes; it is modelled as a \<open>string\<close> (a list of
  8-bit characters). The routing tables this package reads are ASCII text, and the
  functions of package \<open>strings\<close> below are given on ASCII: a byte above 127 is
  neither white space nor an upper-case letter.
\<close>

definition isSpace :: "char \<Rightarrow> bool" where
  \<comment> \<open>unicode.IsSpace on ASCII: tab, line feed, vertical tab, form feed, carriage return, space\<close>
  "isSpace c = (c = CHR 0x09 \<or> c = CHR 0x0A \<or> c = CHR 0x0B \<or> c = CHR 0x0C \<or> c = CHR 0x0D \<or> c = CHR 0x20)"

definition TrimSpace :: "string \<Rightarrow> string" where
  \<comment> \<open>strings.TrimSpace\<close>
  "TrimSpace s = rev (dropWhile isSpace (rev (dropWhile isSpace s)))"

fun fieldsFrom :: "string \<Rightarrow> string \<Rightarrow> string list" where
  \<comment> \<open>the scan of strings.Fields; the first argument is the field being read, reversed\<close>
  "fieldsFrom cur [] = (if cur = [] then [] else [rev cur])"
| "fieldsFrom cur (c # cs) =
     (if isSpace c then (if cur = [] then fieldsFrom [] cs else rev cur # fieldsFrom [] cs)
      else fieldsFrom (c # cur) cs)"

definition Fields :: "string \<Rightarrow> string list" where
  \<comment> \<open>strings.Fields: the maximal runs of characters that are not white space\<close>
  "Fields s = fieldsFrom [] s"

definition toLowerChar :: "char \<Rightarrow> char" where
  "toLowerChar c =
     (let k = (of_char c :: nat) in if 65 \<le> k \<and> k \<le> 90 then char_of (k + 32) else c)"

definition ToLower :: "string \<Rightarrow> string" where
  \<comment> \<open>strings.ToLower\<close>
  "ToLower s = map toLowerChar s"

fun hasPrefix :: "string \<Rightarrow> string \<Rightarrow> bool" where
  \<comment> \<open>strings.HasPrefix s p\<close>
  "hasPrefix s [] = True"
| "hasPrefix [] (p # ps) = False"
| "hasPrefix (c # cs) (p # ps) = (c = p \<and> hasPrefix cs ps)"

fun Contains :: "string \<Rightarrow> string \<Rightarrow> bool" where
  \<comment> \<open>strings.Contains s substr\<close>
  "Contains [] sub = (sub = [])"
| "Contains (c # cs) sub = (hasPrefix (c # cs) sub \<or> Contains cs sub)"

definition ContainsAny :: "string \<Rightarrow> string \<Rightarrow> bool" where
  \<comment> \<open>strings.ContainsAny s chars\<close>
  "ContainsAny s chars = list_ex (\<lambda>c. c \<in> set chars) s"

definition ContainsRune :: "string \<Rightarrow> char \<Rightarrow> bool" where
  \<comment> \<open>strings.ContainsRune s r\<close>
  "ContainsRune s r = (r \<in> set s)"

definition beforeSep :: "string \<Rightarrow> char \<Rightarrow> string" where
  \<comment> \<open>strings.Split(s, sep)[0] for a one-character separator: the text before the first sep\<close>
  "beforeSep s sep = takeWhile (\<lambda>c. c \<noteq> sep) s"

section \<open>Errors and panics\<close>

datatype error =
    ErrCantParse
  | ErrNotImplemented
  | ErrInvalidRouteFileFormat string
  | ErrNoIP
  | ErrParseAddr string
  | ErrCouldNotGetInterface string error
  | ErrCouldNotGetIPs string error
  | ErrOther string

datatype panic = IndexOutOfRange | PanicError error

text \<open>What a call does: it returns a value, or it panics and returns nothing.\<close>

datatype 'a outcome = Returns 'a | Panics panic

section \<open>Addresses\<close>

text \<open>
  \<open>netip.Addr\<close>: the zero value, an IPv4 address, or an IPv6 address with a zone
  (the empty zone when there is none). The methods below are those of package
  \<open>net/netip\<close> that the selection uses.
\<close>

datatype Addr = AddrZero | Addr4 "32 word" | Addr6 "128 word" string

definition BitLen :: "Addr \<Rightarrow> nat" where
  "BitLen ip = (case ip of AddrZero \<Rightarrow> 0 | Addr4 w \<Rightarrow> 32 | Addr6 w z \<Rightarrow> 128)"

definition Is4 :: "Addr \<Rightarrow> bool" where
  "Is4 ip = (case ip of Addr4 w \<Rightarrow> True | _ \<Rightarrow> False)"

definition Is6 :: "Addr \<Rightarrow> bool" where
  "Is6 ip = (case ip of Addr6 w z \<Rightarrow> True | _ \<Rightarrow> False)"

definition Zone :: "Addr \<Rightarrow> string" where
  "Zone ip = (case ip of Addr6 w z \<Rightarrow> z | _ \<Rightarrow> [])"

definition WithZone :: "Addr \<Rightarrow> string \<Rightarrow> Addr" where
  \<comment> \<open>an IPv4 address has no zone: WithZone returns it as it is\<close>
  "WithZone ip zone = (case ip of Addr6 w z \<Rightarrow> Addr6 w zone | _ \<Rightarrow> ip)"

definition uint128 :: "Addr \<Rightarrow> 128 word" where
  \<comment> \<open>the 128 bits netip keeps for an address: an IPv4 address is kept in its
      IPv4-mapped form ::ffff:a.b.c.d\<close>
  "uint128 ip = (case ip of AddrZero \<Rightarrow> 0 | Addr4 w \<Rightarrow> 0xffff00000000 + ucast w | Addr6 w z \<Rightarrow> w)"

definition Is4In6 :: "Addr \<Rightarrow> bool" where
  "Is4In6 ip = (Is6 ip \<and> drop_bit 32 (uint128 ip) = 0xffff)"

definition Unmap :: "Addr \<Rightarrow> Addr" where
  "Unmap ip = (if Is4In6 ip then Addr4 (ucast (uint128 ip)) else ip)"

fun stringLess :: "string \<Rightarrow> string \<Rightarrow> bool" where
  \<comment> \<open>the order < of Go strings: byte by byte, a proper prefix first\<close>
  "stringLess [] [] = False"
| "stringLess [] (y # ys) = True"
| "stringLess (x # xs) [] = False"
| "stringLess (x # xs) (y # ys) =
     ((of_char x :: nat) < of_char y \<or> (x = y \<and> stringLess xs ys))"

definition Compare :: "Addr \<Rightarrow> Addr \<Rightarrow> int" where
  \<comment> \<open>Addr.Compare: by bit length, then by the 128 bits (high half, then low half),
      then, for IPv6 addresses, by zone\<close>
  "Compare ip ip2 =
     (let f1 = BitLen ip; f2 = BitLen ip2 in
      if f1 < f2 then -1
      else if f1 > f2 then 1
      else if uint128 ip < uint128 ip2 then -1
      else if uint128 ip > uint128 ip2 then 1
      else if Is6 ip then
        (let za = Zone ip; zb = Zone ip2 in
         if stringLess za zb then -1 else if stringLess zb za then 1 else 0)
      else 0)"

definition v4 :: "Addr \<Rightarrow> nat \<Rightarrow> 8 word" where
  \<comment> \<open>byte i of an IPv4 address, the first byte being byte 0\<close>
  "v4 ip i = ucast (drop_bit (24 - 8 * i) (uint128 ip))"

definition v6 :: "Addr \<Rightarrow> nat \<Rightarrow> 8 word" where
  \<comment> \<open>byte i of the 16 bytes of an address\<close>
  "v6 ip i = ucast (drop_bit (120 - 8 * i) (uint128 ip))"

definition v6u16 :: "Addr \<Rightarrow> nat \<Rightarrow> 16 word" where
  \<comment> \<open>16-bit word i of the eight words of an address\<close>
  "v6u16 ip i = ucast (drop_bit (112 - 16 * i) (uint128 ip))"

definition IsPrivate :: "Addr \<Rightarrow> bool" where
  \<comment> \<open>Addr.IsPrivate: 10.0.0.0/8, 172.16.0.0/12, 192.168.0.0/16, and fc00::/7\<close>
  "IsPrivate ip0 =
     (let ip = (if Is4In6 ip0 then Unmap ip0 else ip0) in
      if Is4 ip then
        v4 ip 0 = 10 \<or> (v4 ip 0 = 172 \<and> v4 ip 1 AND 0xf0 = 16) \<or> (v4 ip 0 = 192 \<and> v4 ip 1 = 168)
      else if Is6 ip then v6 ip 0 AND 0xfe = 0xfc
      else False)"

definition IsLoopback :: "Addr \<Rightarrow> bool" where
  "IsLoopback ip0 =
     (let ip = (if Is4In6 ip0 then Unmap ip0 else ip0) in
      if Is4 ip then v4 ip 0 = 127
      else if Is6 ip then uint128 ip = 1
      else False)"

definition IsMulticast :: "Addr \<Rightarrow> bool" where
  "IsMulticast ip0 =
     (let ip = (if Is4In6 ip0 then Unmap ip0 else ip0) in
      if Is4 ip then v4 ip 0 AND 0xf0 = 0xe0
      else if Is6 ip then v6 ip 0 = 0xff
      else False)"

definition IsLinkLocalUnicast :: "Addr \<Rightarrow> bool" where
  "IsLinkLocalUnicast ip0 =
     (let ip = (if Is4In6 ip0 then Unmap ip0 else ip0) in
      if Is4 ip then v4 ip 0 = 169 \<and> v4 ip 1 = 254
      else if Is6 ip then v6u16 ip 0 AND 0xffc0 = 0xfe80
      else False)"

definition IsGlobalUnicast :: "Addr \<Rightarrow> bool" where
  \<comment> \<open>Addr.IsGlobalUnicast: private IPv4 and unique-local IPv6 addresses count as
      global unicast\<close>
  "IsGlobalUnicast ip0 =
     (if ip0 = AddrZero then False
      else let ip = (if Is4In6 ip0 then Unmap ip0 else ip0) in
        if Is4 ip \<and> (ip = Addr4 0 \<or> ip = Addr4 0xffffffff) then False
        else ip \<noteq> Addr6 0 [] \<and> \<not> IsLoopback ip \<and> \<not> IsMulticast ip \<and> \<not> IsLinkLocalUnicast ip)"

section \<open>Routes\<close>

type_synonym NetRouteKind = "8 word"

definition NetRouteKindV4 :: NetRouteKind where "NetRouteKindV4 = 1"
definition NetRouteKindV6 :: NetRouteKind where "NetRouteKindV6 = 2"

record NetRoute =
  Kind :: NetRouteKind
  Destination :: Addr
  Flags :: string
  Netif :: string
  Gateway :: Addr

fun HasFlags :: "NetRoute \<Rightarrow> string list \<Rightarrow> bool" where
  "HasFlags n [] = True"
| "HasFlags n (v # flags) = (if \<not> Contains (Flags n) v then False else HasFlags n flags)"

definition filterRoute :: "NetRoute \<Rightarrow> bool" where
  "filterRoute r = (HasFlags r [''U'', ''G''] \<and> \<not> HasFlags r [''H''])"

definition FindDefaults :: "NetRoute list \<Rightarrow> NetRouteKind \<Rightarrow> NetRoute list" where
  "FindDefaults n kind = filter (\<lambda>v. Kind v = kind \<and> filterRoute v) n"

section \<open>The netstat parser\<close>

definition nsDestination :: string where "nsDestination = ''Destination''"
definition nsFlags :: string where "nsFlags = ''Flags''"
definition nsNetif :: string where "nsNetif = ''Netif''"
definition nsGateway :: string where "nsGateway = ''Gateway''"
definition nsInterface :: string where "nsInterface = ''Interface''"

datatype netstatParserState =
    netstatParserStateHeader
  | netstatParserStateInternetHeader
  | netstatParserStateInternet4Header
  | netstatParserStateInternet4Data
  | netstatParserStateInternet6Header
  | netstatParserStateInternet6Data

record netstatParser =
  state :: netstatParserState
  netData :: "NetRoute list"
  net4Fields :: "string \<rightharpoonup> int"
  net6Fields :: "string \<rightharpoonup> int"

definition newNetstatParser :: netstatParser where
  "newNetstatParser =
     \<lparr>state = netstatParserStateHeader, netData = [], net4Fields = Map.empty, net6Fields = Map.empty\<rparr>"

definition mapGet :: "(string \<rightharpoonup> int) \<Rightarrow> string \<Rightarrow> int" where
  \<comment> \<open>reading a Go map: the zero value for a key that is not there\<close>
  "mapGet m k = (case m k of None \<Rightarrow> 0 | Some v \<Rightarrow> v)"

definition index :: "'a list \<Rightarrow> int \<Rightarrow> 'a option" where
  \<comment> \<open>fields[i]: None stands for the run-time panic "index out of range"\<close>
  "index xs i = (if 0 \<le> i \<and> i < int (length xs) then Some (xs ! nat i) else None)"

fun firstIdx :: "string list \<Rightarrow> string \<Rightarrow> int \<Rightarrow> int" where
  "firstIdx [] name i = -1"
| "firstIdx (v # vs) name i = (if v = name then i else firstIdx vs name (i + 1))"

definition fieldIdx :: "string list \<Rightarrow> string \<Rightarrow> int" where
  \<comment> \<open>Modelled from the spec: type fieldSet and its method fieldIdx are not among the
      source files. The header line is parsed into a mapping from column name to index;
      the callers compare the result with -1 for a column that is not there.\<close>
  "fieldIdx flds name = firstIdx flds name 0"

definition reset :: "netstatParser \<Rightarrow> netstatParser" where
  "reset n = n\<lparr>state := netstatParserStateHeader, netData := [],
               net4Fields := Map.empty, net6Fields := Map.empty\<rparr>"

definition parseHeader :: "netstatParser \<Rightarrow> string \<Rightarrow> error option \<times> netstatParser" where
  "parseHeader n line =
     (if ToLower line = ''routing tables''
      then (None, n\<lparr>state := netstatParserStateInternetHeader\<rparr>)
      else (Some ErrCantParse, n))"

definition parseInternetHeader :: "netstatParser \<Rightarrow> string \<Rightarrow> netstatParser" where
  "parseInternetHeader n line =
     (if length line = 0 then n
      else let line = ToLower line in
        if line = ''internet:'' then n\<lparr>state := netstatParserStateInternet4Header\<rparr>
        else if line = ''internet6:'' then n\<lparr>state := netstatParserStateInternet6Header\<rparr>
        else reset n)"

fun wantedFields4 :: "string list \<Rightarrow> netstatParser \<Rightarrow> string list \<Rightarrow> bool \<times> netstatParser" where
  \<comment> \<open>the loop over wantedFields; False when a column is missing\<close>
  "wantedFields4 flds n [] = (True, n)"
| "wantedFields4 flds n (v # vs) =
     (let idx = fieldIdx flds v in
      if idx = -1 then (False, n)
      else wantedFields4 flds (n\<lparr>net4Fields := (net4Fields n)(v \<mapsto> idx)\<rparr>) vs)"

definition parseInternetHeader4 :: "netstatParser \<Rightarrow> string \<Rightarrow> netstatParser" where
  "parseInternetHeader4 n line =
     (let flds = Fields line in
      if length flds < 4 then reset n
      else case wantedFields4 flds n [nsDestination, nsGateway, nsFlags] of
        (False, n1) \<Rightarrow> reset n1
      | (True, n1) \<Rightarrow>
          let iface = fieldIdx flds nsInterface; netif = fieldIdx flds nsNetif in
          if iface = -1 \<and> netif = -1 then reset n1
          else (if iface > 0
                then n1\<lparr>net4Fields := (net4Fields n1)(nsNetif \<mapsto> iface)\<rparr>
                else n1\<lparr>net4Fields := (net4Fields n1)(nsNetif \<mapsto> netif)\<rparr>)
               \<lparr>state := netstatParserStateInternet4Data\<rparr>)"

fun wantedFields6 :: "string list \<Rightarrow> netstatParser \<Rightarrow> string list \<Rightarrow> bool \<times> netstatParser" where
  "wantedFields6 flds n [] = (True, n)"
| "wantedFields6 flds n (v # vs) =
     (let idx = fieldIdx flds v in
      if idx = -1 then (False, n)
      else wantedFields6 flds (n\<lparr>net6Fields := (net6Fields n)(v \<mapsto> idx)\<rparr>) vs)"

definition parseInternetHeader6 :: "netstatParser \<Rightarrow> string \<Rightarrow> netstatParser" where
  "parseInternetHeader6 n line =
     (let flds = Fields line in
      if length flds < 4 then reset n
      else case wantedFields6 flds n [nsDestination, nsGateway, nsFlags] of
        (False, n1) \<Rightarrow> reset n1
      | (True, n1) \<Rightarrow>
          let iface = fieldIdx flds nsInterface; netif = fieldIdx flds nsNetif in
          if iface = -1 \<and> netif = -1 then reset n1
          else (if iface > 0
                then n1\<lparr>net6Fields := (net6Fields n1)(nsNetif \<mapsto> iface)\<rparr>
                else n1\<lparr>net6Fields := (net6Fields n1)(nsNetif \<mapsto> netif)\<rparr>)
               \<lparr>state := netstatParserStateInternet6Data\<rparr>)"

text \<open>
  \<open>netip.ParseAddr\<close> belongs to the Go library. The parser only looks at whether it
  fails, so it is a parameter \<open>pa\<close> of the functions that call it: what is proved
  about them holds for every address parser.
\<close>

type_synonym parseAddr = "string \<Rightarrow> error + Addr"

definition parseInternet4Data :: "parseAddr \<Rightarrow> netstatParser \<Rightarrow> string \<Rightarrow> netstatParser outcome" where
  "parseInternet4Data pa n line =
     (if length line = 0 then Returns (n\<lparr>state := netstatParserStateInternetHeader\<rparr>)
      else
        let flds = Fields line;
            gw = mapGet (net4Fields n) nsGateway;
            dst = mapGet (net4Fields n) nsDestination
        in case index flds gw of
          None \<Rightarrow> Panics IndexOutOfRange
        | Some g \<Rightarrow>
            if ContainsAny g ''#:'' then Returns n
            else case index flds dst of
              None \<Rightarrow> Panics IndexOutOfRange
            | Some d \<Rightarrow>
                let flds = (if d = ''default'' then flds[nat dst := ''0.0.0.0''] else flds) in
                case pa (flds ! nat dst) of
                  Inl err \<Rightarrow> Returns n
                | Inr dstIp \<Rightarrow>
                    (case pa (flds ! nat gw) of
                       Inl err \<Rightarrow> Returns n
                     | Inr gatewayIp \<Rightarrow>
                         (case index flds (mapGet (net4Fields n) nsFlags) of
                            None \<Rightarrow> Panics IndexOutOfRange
                          | Some fl \<Rightarrow>
                              (case index flds (mapGet (net4Fields n) nsNetif) of
                                 None \<Rightarrow> Panics IndexOutOfRange
                               | Some nif \<Rightarrow>
                                   Returns (n\<lparr>netData := netData n @
                                     [\<lparr>Kind = NetRouteKindV4, Destination = dstIp, Flags = fl,
                                       Netif = nif, Gateway = gatewayIp\<rparr>]\<rparr>)))))"

definition parseInternet6Data ::
  "parseAddr \<Rightarrow> netstatParser \<Rightarrow> string \<Rightarrow> (error option \<times> netstatParser) outcome" where
  "parseInternet6Data pa n line =
     (if length line = 0 then Returns (None, n\<lparr>state := netstatParserStateInternetHeader\<rparr>)
      else
        let flds = Fields line;
            gw = mapGet (net6Fields n) nsGateway;
            dst = mapGet (net6Fields n) nsDestination
        in case index flds gw of
          None \<Rightarrow> Panics IndexOutOfRange
        | Some g \<Rightarrow>
            if ContainsRune g (CHR ''#'') then Returns (None, n)
            else case index flds dst of
              None \<Rightarrow> Panics IndexOutOfRange
            | Some d \<Rightarrow>
                let flds = (if d = ''default'' then flds[nat dst := ''::''] else flds);
                    flds = (if ContainsRune (flds ! nat dst) (CHR ''/'')
                              then flds[nat dst := beforeSep (flds ! nat dst) (CHR ''/'')]
                              else flds)
                in case pa (flds ! nat dst) of
                  Inl err \<Rightarrow> Returns (Some err, n)
                | Inr dstIp \<Rightarrow>
                    (case pa (flds ! nat gw) of
                       Inl err \<Rightarrow> Returns (None, n)
                     | Inr gatewayIp \<Rightarrow>
                         (case index flds (mapGet (net6Fields n) nsFlags) of
                            None \<Rightarrow> Panics IndexOutOfRange
                          | Some fl \<Rightarrow>
                              (case index flds (mapGet (net6Fields n) nsNetif) of
                                 None \<Rightarrow> Panics IndexOutOfRange
                               | Some nif \<Rightarrow>
                                   Returns (None, n\<lparr>netData := netData n @
                                     [\<lparr>Kind = NetRouteKindV6, Destination = dstIp, Flags = fl,
                                       Netif = nif, Gateway = gatewayIp\<rparr>]\<rparr>)))))"

definition feed ::
  "parseAddr \<Rightarrow> netstatParser \<Rightarrow> string \<Rightarrow> (error option \<times> netstatParser) outcome" where
  "feed pa n line0 =
     (let line = TrimSpace line0 in
      case state n of
        netstatParserStateHeader \<Rightarrow> Returns (parseHeader n line)
      | netstatParserStateInternetHeader \<Rightarrow> Returns (None, parseInternetHeader n line)
      | netstatParserStateInternet4Header \<Rightarrow> Returns (None, parseInternetHeader4 n line)
      | netstatParserStateInternet4Data \<Rightarrow>
          (case parseInternet4Data pa n line of
             Panics p \<Rightarrow> Panics p
           | Returns n1 \<Rightarrow> Returns (None, n1))
      | netstatParserStateInternet6Header \<Rightarrow> Returns (None, parseInternetHeader6 n line)
      | netstatParserStateInternet6Data \<Rightarrow> parseInternet6Data pa n line)"

definition result :: "netstatParser \<Rightarrow> NetRoute list" where
  \<comment> \<open>a copy of the routes parsed so far\<close>
  "result n = netData n"

section \<open>Sorting\<close>

text \<open>
  \<open>slices.SortFunc\<close> of the Go library sorts a slice in place with a pattern-defeating
  quicksort: an insertion sort on at most 12 elements, otherwise a choice of pivot and a
  partition, with a heap sort when too many partitions were unbalanced. The functions
  below follow the library's \<open>pdqsortCmpFunc\<close> and its helpers; a slice is the list of
  its elements, indices are Go's \<open>int\<close>, and every loop is a recursive function named
  after the function it belongs to. The documentation of \<open>slices.SortFunc\<close> promises a
  slice in ascending order of \<open>cmp\<close> and no more: "This sort is not guaranteed to be
  stable."
\<close>

definition swap :: "'a list \<Rightarrow> int \<Rightarrow> int \<Rightarrow> 'a list" where
  \<comment> \<open>data[i], data[j] = data[j], data[i]\<close>
  "swap data i j = data[nat i := data ! nat j, nat j := data ! nat i]"

definition quo :: "int \<Rightarrow> int \<Rightarrow> int" where
  \<comment> \<open>Go's integer division, which truncates towards zero\<close>
  "quo x y = sgn x * sgn y * (\<bar>x\<bar> div \<bar>y\<bar>)"

fun bitsLen :: "nat \<Rightarrow> nat" where
  \<comment> \<open>bits.Len: the number of bits of n, 0 for 0\<close>
  "bitsLen n = (if n = 0 then 0 else Suc (bitsLen (n div 2)))"

declare bitsLen.simps [simp del]

function insertionSortCmpFunc_j :: "('a \<Rightarrow> 'a \<Rightarrow> int) \<Rightarrow> 'a list \<Rightarrow> int \<Rightarrow> int \<Rightarrow> 'a list" where
  \<comment> \<open>the inner loop of insertionSortCmpFunc: for j := i; j > a and cmp(data[j], data[j-1]) < 0; j--\<close>
  "insertionSortCmpFunc_j cmp data a j =
     (if j > a \<and> cmp (data ! nat j) (data ! nat (j - 1)) < 0
      then insertionSortCmpFunc_j cmp (swap data j (j - 1)) a (j - 1)
      else data)"
  by pat_completeness auto
termination
  by (relation "measure (\<lambda>(cmp, data, a, j). nat (j - a))") auto

declare insertionSortCmpFunc_j.simps [simp del]

function insertionSortCmpFunc_i :: "('a \<Rightarrow> 'a \<Rightarrow> int) \<Rightarrow> 'a list \<Rightarrow> int \<Rightarrow> int \<Rightarrow> int \<Rightarrow> 'a list" where
  \<comment> \<open>the outer loop: for i := a + 1; i < b; i++\<close>
  "insertionSortCmpFunc_i cmp data a b i =
     (if i < b then insertionSortCmpFunc_i cmp (insertionSortCmpFunc_j cmp data a i) a b (i + 1)
      else data)"
  by pat_completeness auto
termination
  by (relation "measure (\<lambda>(cmp, data, a, b, i). nat (b - i))") auto

declare insertionSortCmpFunc_i.simps [simp del]

definition insertionSortCmpFunc :: "('a \<Rightarrow> 'a \<Rightarrow> int) \<Rightarrow> 'a list \<Rightarrow> int \<Rightarrow> int \<Rightarrow> 'a list" where
  \<comment> \<open>sorts data[a:b] by insertion\<close>
  "insertionSortCmpFunc cmp data a b = insertionSortCmpFunc_i cmp data a b (a + 1)"

function siftDownCmpFunc :: "('a \<Rightarrow> 'a \<Rightarrow> int) \<Rightarrow> 'a list \<Rightarrow> nat \<Rightarrow> nat \<Rightarrow> nat \<Rightarrow> 'a list" where
  \<comment> \<open>the heap property on data[lo:hi], the heap starting at the offset first; the indices of a heap are natural numbers\<close>
  "siftDownCmpFunc cmp data root hi first =
     (let child = 2 * root + 1 in
      if child \<ge> hi then data
      else
        let child = (if child + 1 < hi \<and> cmp (data ! (first + child)) (data ! (first + child + 1)) < 0
                     then child + 1 else child) in
        if \<not> (cmp (data ! (first + root)) (data ! (first + child)) < 0) then data
        else siftDownCmpFunc cmp (swap data (int (first + root)) (int (first + child))) child hi first)"
  by pat_completeness auto
termination
  by (relation "measure (\<lambda>(cmp, data, root, hi, first). hi - root)") (auto split: if_splits)

declare siftDownCmpFunc.simps [simp del]

fun heapSortCmpFunc_build :: "('a \<Rightarrow> 'a \<Rightarrow> int) \<Rightarrow> 'a list \<Rightarrow> nat \<Rightarrow> nat \<Rightarrow> nat \<Rightarrow> 'a list" where
  \<comment> \<open>for i := (hi - 1) / 2; i >= 0; i--, the third argument being i + 1\<close>
  "heapSortCmpFunc_build cmp data 0 hi first = data"
| "heapSortCmpFunc_build cmp data (Suc i) hi first =
     heapSortCmpFunc_build cmp (siftDownCmpFunc cmp data i hi first) i hi first"

declare heapSortCmpFunc_build.simps [simp del]

fun heapSortCmpFunc_pop :: "('a \<Rightarrow> 'a \<Rightarrow> int) \<Rightarrow> 'a list \<Rightarrow> nat \<Rightarrow> nat \<Rightarrow> 'a list" where
  \<comment> \<open>for i := hi - 1; i >= 0; i--, the third argument being i + 1\<close>
  "heapSortCmpFunc_pop cmp data 0 first = data"
| "heapSortCmpFunc_pop cmp data (Suc i) first =
     heapSortCmpFunc_pop cmp
       (siftDownCmpFunc cmp (swap data (int first) (int (first + i))) 0 i first) i first"

declare heapSortCmpFunc_pop.simps [simp del]

definition heapSortCmpFunc :: "('a \<Rightarrow> 'a \<Rightarrow> int) \<Rightarrow> 'a list \<Rightarrow> int \<Rightarrow> int \<Rightarrow> 'a list" where
  "heapSortCmpFunc cmp data a b =
     (let first = nat a; hi = nat (b - a);
          data = heapSortCmpFunc_build cmp data (Suc ((hi - 1) div 2)) hi first
      in heapSortCmpFunc_pop cmp data hi first)"

datatype sortedHint = unknownHint | increasingHint | decreasingHint

definition xorshiftNext :: "64 word \<Rightarrow> 64 word" where
  \<comment> \<open>the generator of breakPatternsCmpFunc, on uint64\<close>
  "xorshiftNext r0 =
     (let r = r0 XOR push_bit 13 r0;
          r = r XOR drop_bit 7 r;
          r = r XOR push_bit 17 r
      in r)"

definition nextPowerOfTwo :: "int \<Rightarrow> 64 word" where
  "nextPowerOfTwo len = push_bit (bitsLen (nat len)) 1"

fun breakPatternsCmpFunc_i ::
  "'a list \<Rightarrow> int \<Rightarrow> int \<Rightarrow> int \<Rightarrow> 64 word \<Rightarrow> 64 word \<Rightarrow> int \<Rightarrow> nat \<Rightarrow> 'a list" where
  "breakPatternsCmpFunc_i data a len idx random modulus i 0 = data"
| "breakPatternsCmpFunc_i data a len idx random modulus i (Suc k) =
     (let random = xorshiftNext random;
          other = uint (random AND (modulus - 1));
          other = (if other \<ge> len then other - len else other)
      in breakPatternsCmpFunc_i (swap data (idx - 1 + i) (a + other)) a len idx random modulus (i + 1) k)"

declare breakPatternsCmpFunc_i.simps [simp del]

definition breakPatternsCmpFunc :: "'a list \<Rightarrow> int \<Rightarrow> int \<Rightarrow> 'a list" where
  \<comment> \<open>swaps three elements around the middle with elements the generator picks\<close>
  "breakPatternsCmpFunc data a b =
     (let len = b - a in
      if len \<ge> 8 then
        let random = (word_of_int len :: 64 word);
            modulus = nextPowerOfTwo len;
            idx = a + quo len 4 * 2 - 1
        in breakPatternsCmpFunc_i data a len idx random modulus 0 3
      else data)"

definition order2CmpFunc ::
  "('a \<Rightarrow> 'a \<Rightarrow> int) \<Rightarrow> 'a list \<Rightarrow> int \<Rightarrow> int \<Rightarrow> int \<Rightarrow> int \<times> int \<times> int" where
  "order2CmpFunc cmp data a b swaps =
     (if cmp (data ! nat b) (data ! nat a) < 0 then (b, a, swaps + 1) else (a, b, swaps))"

definition medianCmpFunc ::
  "('a \<Rightarrow> 'a \<Rightarrow> int) \<Rightarrow> 'a list \<Rightarrow> int \<Rightarrow> int \<Rightarrow> int \<Rightarrow> int \<Rightarrow> int \<times> int" where
  "medianCmpFunc cmp data a0 b0 c0 swaps0 =
     (let (a, b, swaps) = order2CmpFunc cmp data a0 b0 swaps0;
          (b, c, swaps) = order2CmpFunc cmp data b c0 swaps;
          (a, b, swaps) = order2CmpFunc cmp data a b swaps
      in (b, swaps))"

definition medianAdjacentCmpFunc ::
  "('a \<Rightarrow> 'a \<Rightarrow> int) \<Rightarrow> 'a list \<Rightarrow> int \<Rightarrow> int \<Rightarrow> int \<times> int" where
  "medianAdjacentCmpFunc cmp data a swaps = medianCmpFunc cmp data (a - 1) a (a + 1) swaps"

definition choosePivotCmpFunc ::
  "('a \<Rightarrow> 'a \<Rightarrow> int) \<Rightarrow> 'a list \<Rightarrow> int \<Rightarrow> int \<Rightarrow> int \<times> sortedHint" where
  \<comment> \<open>the median of three elements (of three medians from 50 elements on), and a hint from the number of swaps\<close>
  "choosePivotCmpFunc cmp data a b =
     (let l = b - a;
          swaps = 0;
          i = a + quo l 4 * 1;
          j = a + quo l 4 * 2;
          k = a + quo l 4 * 3;
          (j, swaps) =
            (if l \<ge> 8 then
               let (i, j, k, swaps) =
                     (if l \<ge> 50 then
                        let (i, swaps) = medianAdjacentCmpFunc cmp data i swaps;
                            (j, swaps) = medianAdjacentCmpFunc cmp data j swaps;
                            (k, swaps) = medianAdjacentCmpFunc cmp data k swaps
                        in (i, j, k, swaps)
                      else (i, j, k, swaps))
               in medianCmpFunc cmp data i j k swaps
             else (j, swaps))
      in if swaps = 0 then (j, increasingHint)
         else if swaps = 12 then (j, decreasingHint)
         else (j, unknownHint))"

function reverseRangeCmpFunc_loop :: "'a list \<Rightarrow> int \<Rightarrow> int \<Rightarrow> 'a list" where
  "reverseRangeCmpFunc_loop data i j =
     (if i < j then reverseRangeCmpFunc_loop (swap data i j) (i + 1) (j - 1) else data)"
  by pat_completeness auto
termination
  by (relation "measure (\<lambda>(data, i, j). nat (j - i))") auto

declare reverseRangeCmpFunc_loop.simps [simp del]

definition reverseRangeCmpFunc :: "'a list \<Rightarrow> int \<Rightarrow> int \<Rightarrow> 'a list" where
  "reverseRangeCmpFunc data a b = reverseRangeCmpFunc_loop data a (b - 1)"

function partialInsertionSortCmpFunc_scan ::
  "('a \<Rightarrow> 'a \<Rightarrow> int) \<Rightarrow> 'a list \<Rightarrow> int \<Rightarrow> int \<Rightarrow> int" where
  "partialInsertionSortCmpFunc_scan cmp data i b =
     (if i < b \<and> \<not> (cmp (data ! nat i) (data ! nat (i - 1)) < 0)
      then partialInsertionSortCmpFunc_scan cmp data (i + 1) b else i)"
  by pat_completeness auto
termination
  by (relation "measure (\<lambda>(cmp, data, i, b). nat (b - i))") auto

declare partialInsertionSortCmpFunc_scan.simps [simp del]

function partialInsertionSortCmpFunc_left ::
  "('a \<Rightarrow> 'a \<Rightarrow> int) \<Rightarrow> 'a list \<Rightarrow> int \<Rightarrow> 'a list" where
  "partialInsertionSortCmpFunc_left cmp data j =
     (if j \<ge> 1 then
        (if \<not> (cmp (data ! nat j) (data ! nat (j - 1)) < 0) then data
         else partialInsertionSortCmpFunc_left cmp (swap data j (j - 1)) (j - 1))
      else data)"
  by pat_completeness auto
termination
  by (relation "measure (\<lambda>(cmp, data, j). nat j)") auto

declare partialInsertionSortCmpFunc_left.simps [simp del]

function partialInsertionSortCmpFunc_right ::
  "('a \<Rightarrow> 'a \<Rightarrow> int) \<Rightarrow> 'a list \<Rightarrow> int \<Rightarrow> int \<Rightarrow> 'a list" where
  "partialInsertionSortCmpFunc_right cmp data j b =
     (if j < b then
        (if \<not> (cmp (data ! nat j) (data ! nat (j - 1)) < 0) then data
         else partialInsertionSortCmpFunc_right cmp (swap data j (j - 1)) (j + 1) b)
      else data)"
  by pat_completeness auto
termination
  by (relation "measure (\<lambda>(cmp, data, j, b). nat (b - j))") auto

declare partialInsertionSortCmpFunc_right.simps [simp del]

fun partialInsertionSortCmpFunc_steps ::
  "nat \<Rightarrow> ('a \<Rightarrow> 'a \<Rightarrow> int) \<Rightarrow> 'a list \<Rightarrow> int \<Rightarrow> int \<Rightarrow> int \<Rightarrow> bool \<times> 'a list" where
  "partialInsertionSortCmpFunc_steps 0 cmp data a b i = (False, data)"
| "partialInsertionSortCmpFunc_steps (Suc k) cmp data a b i0 =
     (let i = partialInsertionSortCmpFunc_scan cmp data i0 b in
      if i = b then (True, data)
      else if b - a < 50 then (False, data)
      else
        let data = swap data i (i - 1);
            data = (if i - a \<ge> 2 then partialInsertionSortCmpFunc_left cmp data (i - 1) else data);
            data = (if b - i \<ge> 2 then partialInsertionSortCmpFunc_right cmp data (i + 1) b else data)
        in partialInsertionSortCmpFunc_steps k cmp data a b i)"

declare partialInsertionSortCmpFunc_steps.simps [simp del]

definition partialInsertionSortCmpFunc ::
  "('a \<Rightarrow> 'a \<Rightarrow> int) \<Rightarrow> 'a list \<Rightarrow> int \<Rightarrow> int \<Rightarrow> bool \<times> 'a list" where
  \<comment> \<open>at most five steps of an insertion sort; True when the slice is sorted at the end\<close>
  "partialInsertionSortCmpFunc cmp data a b = partialInsertionSortCmpFunc_steps 5 cmp data a b (a + 1)"

function partitionEqualCmpFunc_i :: "('a \<Rightarrow> 'a \<Rightarrow> int) \<Rightarrow> 'a list \<Rightarrow> int \<Rightarrow> int \<Rightarrow> int \<Rightarrow> int" where
  "partitionEqualCmpFunc_i cmp data a i j =
     (if i \<le> j \<and> \<not> (cmp (data ! nat a) (data ! nat i) < 0)
      then partitionEqualCmpFunc_i cmp data a (i + 1) j else i)"
  by pat_completeness auto
termination
  by (relation "measure (\<lambda>(cmp, data, a, i, j). nat (j + 1 - i))") auto

declare partitionEqualCmpFunc_i.simps [simp del]

function partitionEqualCmpFunc_j :: "('a \<Rightarrow> 'a \<Rightarrow> int) \<Rightarrow> 'a list \<Rightarrow> int \<Rightarrow> int \<Rightarrow> int \<Rightarrow> int" where
  "partitionEqualCmpFunc_j cmp data a i j =
     (if i \<le> j \<and> cmp (data ! nat a) (data ! nat j) < 0
      then partitionEqualCmpFunc_j cmp data a i (j - 1) else j)"
  by pat_completeness auto
termination
  by (relation "measure (\<lambda>(cmp, data, a, i, j). nat (j + 1 - i))") auto

declare partitionEqualCmpFunc_j.simps [simp del]

function partitionCmpFunc_i :: "('a \<Rightarrow> 'a \<Rightarrow> int) \<Rightarrow> 'a list \<Rightarrow> int \<Rightarrow> int \<Rightarrow> int \<Rightarrow> int" where
  "partitionCmpFunc_i cmp data a i j =
     (if i \<le> j \<and> cmp (data ! nat i) (data ! nat a) < 0
      then partitionCmpFunc_i cmp data a (i + 1) j else i)"
  by pat_completeness auto
termination
  by (relation "measure (\<lambda>(cmp, data, a, i, j). nat (j + 1 - i))") auto

declare partitionCmpFunc_i.simps [simp del]

function partitionCmpFunc_j :: "('a \<Rightarrow> 'a \<Rightarrow> int) \<Rightarrow> 'a list \<Rightarrow> int \<Rightarrow> int \<Rightarrow> int \<Rightarrow> int" where
  "partitionCmpFunc_j cmp data a i j =
     (if i \<le> j \<and> \<not> (cmp (data ! nat j) (data ! nat a) < 0)
      then partitionCmpFunc_j cmp data a i (j - 1) else j)"
  by pat_completeness auto
termination
  by (relation "measure (\<lambda>(cmp, data, a, i, j). nat (j + 1 - i))") auto

declare partitionCmpFunc_j.simps [simp del]

lemma partitionEqualCmpFunc_i_ge: "i \<le> partitionEqualCmpFunc_i cmp data a i j"
  by (induction cmp data a i j rule: partitionEqualCmpFunc_i.induct)
     (subst partitionEqualCmpFunc_i.simps, auto)

lemma partitionEqualCmpFunc_j_le: "partitionEqualCmpFunc_j cmp data a i j \<le> j"
  by (induction cmp data a i j rule: partitionEqualCmpFunc_j.induct)
     (subst partitionEqualCmpFunc_j.simps, auto)

lemma partitionCmpFunc_i_ge: "i \<le> partitionCmpFunc_i cmp data a i j"
  by (induction cmp data a i j rule: partitionCmpFunc_i.induct)
     (subst partitionCmpFunc_i.simps, auto)

lemma partitionCmpFunc_j_le: "partitionCmpFunc_j cmp data a i j \<le> j"
  by (induction cmp data a i j rule: partitionCmpFunc_j.induct)
     (subst partitionCmpFunc_j.simps, auto)

lemma partitionCmpFunc_j_ge: "i - 1 \<le> j \<Longrightarrow> i - 1 \<le> partitionCmpFunc_j cmp data a i j"
  by (induction cmp data a i j rule: partitionCmpFunc_j.induct)
     (subst partitionCmpFunc_j.simps, auto)

lemma partitionCmpFunc_i_le: "i \<le> j + 1 \<Longrightarrow> partitionCmpFunc_i cmp data a i j \<le> j + 1"
  by (induction cmp data a i j rule: partitionCmpFunc_i.induct)
     (subst partitionCmpFunc_i.simps, auto)

function partitionEqualCmpFunc_loop ::
  "('a \<Rightarrow> 'a \<Rightarrow> int) \<Rightarrow> 'a list \<Rightarrow> int \<Rightarrow> int \<Rightarrow> int \<Rightarrow> int \<times> 'a list" where
  "partitionEqualCmpFunc_loop cmp data a i0 j0 =
     (let i = partitionEqualCmpFunc_i cmp data a i0 j0;
          j = partitionEqualCmpFunc_j cmp data a i j0
      in if i > j then (i, data)
         else partitionEqualCmpFunc_loop cmp (swap data i j) a (i + 1) (j - 1))"
  by pat_completeness auto
termination
proof (relation "measure (\<lambda>(cmp, data, a, i, j). nat (j + 1 - i))", goal_cases)
  case 1
  then show ?case by simp
next
  case (2 cmp data a i0 j0 i j)
  have "i0 \<le> i" using 2(1) partitionEqualCmpFunc_i_ge by simp
  moreover have "j \<le> j0" using 2(2) partitionEqualCmpFunc_j_le by simp
  ultimately show ?case using 2(3) by simp
qed

declare partitionEqualCmpFunc_loop.simps [simp del]

definition partitionEqualCmpFunc ::
  "('a \<Rightarrow> 'a \<Rightarrow> int) \<Rightarrow> 'a list \<Rightarrow> int \<Rightarrow> int \<Rightarrow> int \<Rightarrow> int \<times> 'a list" where
  \<comment> \<open>partitions data[a:b] into the elements equal to the pivot and the elements greater than it; the new pivot index and the slice\<close>
  "partitionEqualCmpFunc cmp data0 a b pivot =
     (let data = swap data0 a pivot in partitionEqualCmpFunc_loop cmp data a (a + 1) (b - 1))"

function partitionCmpFunc_loop ::
  "('a \<Rightarrow> 'a \<Rightarrow> int) \<Rightarrow> 'a list \<Rightarrow> int \<Rightarrow> int \<Rightarrow> int \<Rightarrow> int \<times> 'a list" where
  "partitionCmpFunc_loop cmp data a i0 j0 =
     (let i = partitionCmpFunc_i cmp data a i0 j0;
          j = partitionCmpFunc_j cmp data a i j0
      in if i > j then (j, data)
         else partitionCmpFunc_loop cmp (swap data i j) a (i + 1) (j - 1))"
  by pat_completeness auto
termination
proof (relation "measure (\<lambda>(cmp, data, a, i, j). nat (j + 1 - i))", goal_cases)
  case 1
  then show ?case by simp
next
  case (2 cmp data a i0 j0 i j)
  have "i0 \<le> i" using 2(1) partitionCmpFunc_i_ge by simp
  moreover have "j \<le> j0" using 2(2) partitionCmpFunc_j_le by simp
  ultimately show ?case using 2(3) by simp
qed

declare partitionCmpFunc_loop.simps [simp del]

definition partitionCmpFunc ::
  "('a \<Rightarrow> 'a \<Rightarrow> int) \<Rightarrow> 'a list \<Rightarrow> int \<Rightarrow> int \<Rightarrow> int \<Rightarrow> int \<times> bool \<times> 'a list" where
  \<comment> \<open>partitions data[a:b] around the pivot; the new pivot index, whether the slice was partitioned already, and the slice\<close>
  "partitionCmpFunc cmp data0 a b pivot =
     (let data = swap data0 a pivot;
          i = partitionCmpFunc_i cmp data a (a + 1) (b - 1);
          j = partitionCmpFunc_j cmp data a i (b - 1)
      in if i > j then (j, True, swap data j a)
         else
           let data = swap data i j;
               (j, data) = partitionCmpFunc_loop cmp data a (i + 1) (j - 1)
           in (j, False, swap data j a))"

lemma partitionCmpFunc_loop_bounds:
  "a + 2 \<le> i0 \<Longrightarrow> i0 - 2 \<le> j0 \<Longrightarrow> j0 \<le> b - 1 \<Longrightarrow>
   a \<le> fst (partitionCmpFunc_loop cmp data a i0 j0) \<and> fst (partitionCmpFunc_loop cmp data a i0 j0) \<le> b - 1"
proof (induction cmp data a i0 j0 rule: partitionCmpFunc_loop.induct)
  case (1 cmp data a i0 j0)
  define i where "i = partitionCmpFunc_i cmp data a i0 j0"
  define j where "j = partitionCmpFunc_j cmp data a i j0"
  have i_ge: "i0 \<le> i" unfolding i_def by (rule partitionCmpFunc_i_ge)
  have j_le: "j \<le> j0" unfolding j_def by (rule partitionCmpFunc_j_le)
  have j_ge: "i0 - 2 \<le> j"
  proof (cases "i - 1 \<le> j0")
    case True
    then have "i - 1 \<le> j" unfolding j_def by (rule partitionCmpFunc_j_ge)
    then show ?thesis using i_ge by simp
  next
    case False
    then have "j = j0" unfolding j_def by (subst partitionCmpFunc_j.simps) simp
    then show ?thesis using "1.prems" by simp
  qed
  show ?case
  proof (cases "i > j")
    case True
    then have "partitionCmpFunc_loop cmp data a i0 j0 = (j, data)"
      by (subst partitionCmpFunc_loop.simps) (simp add: i_def j_def Let_def)
    then show ?thesis using j_ge j_le "1.prems" by simp
  next
    case False
    then have eq: "partitionCmpFunc_loop cmp data a i0 j0 =
        partitionCmpFunc_loop cmp (swap data i j) a (i + 1) (j - 1)"
      by (subst partitionCmpFunc_loop.simps) (simp add: i_def j_def Let_def)
    have "a \<le> fst (partitionCmpFunc_loop cmp (swap data i j) a (i + 1) (j - 1)) \<and>
          fst (partitionCmpFunc_loop cmp (swap data i j) a (i + 1) (j - 1)) \<le> b - 1"
      using "1.IH" [OF i_def j_def False] False i_ge j_le "1.prems" by simp
    then show ?thesis using eq by simp
  qed
qed

lemma partitionCmpFunc_mid:
  assumes "a < b"
  shows "a \<le> fst (partitionCmpFunc cmp data a b pivot) \<and> fst (partitionCmpFunc cmp data a b pivot) < b"
proof -
  define d1 where "d1 = swap data a pivot"
  define i where "i = partitionCmpFunc_i cmp d1 a (a + 1) (b - 1)"
  define j where "j = partitionCmpFunc_j cmp d1 a i (b - 1)"
  have i_ge: "a + 1 \<le> i" unfolding i_def by (rule partitionCmpFunc_i_ge)
  have j_le: "j \<le> b - 1" unfolding j_def by (rule partitionCmpFunc_j_le)
  have j_ge: "a \<le> j"
  proof (cases "i - 1 \<le> b - 1")
    case True
    then have "i - 1 \<le> j" unfolding j_def by (rule partitionCmpFunc_j_ge)
    then show ?thesis using i_ge by simp
  next
    case False
    then have "j = b - 1" unfolding j_def by (subst partitionCmpFunc_j.simps) simp
    then show ?thesis using assms by simp
  qed
  show ?thesis
  proof (cases "i > j")
    case True
    then have "fst (partitionCmpFunc cmp data a b pivot) = j"
      by (simp add: partitionCmpFunc_def Let_def d1_def [symmetric] i_def [symmetric] j_def [symmetric])
    then show ?thesis using j_ge j_le by simp
  next
    case False
    then have "fst (partitionCmpFunc cmp data a b pivot) =
        fst (partitionCmpFunc_loop cmp (swap d1 i j) a (i + 1) (j - 1))"
      by (simp add: partitionCmpFunc_def Let_def d1_def [symmetric] i_def [symmetric] j_def [symmetric]
            split: prod.splits)
    moreover have "a \<le> fst (partitionCmpFunc_loop cmp (swap d1 i j) a (i + 1) (j - 1)) \<and>
          fst (partitionCmpFunc_loop cmp (swap d1 i j) a (i + 1) (j - 1)) \<le> b - 1"
      using False i_ge j_le by (intro partitionCmpFunc_loop_bounds) simp_all
    ultimately show ?thesis by simp
  qed
qed

lemma partitionEqualCmpFunc_loop_ge: "i0 \<le> fst (partitionEqualCmpFunc_loop cmp data a i0 j0)"
proof (induction cmp data a i0 j0 rule: partitionEqualCmpFunc_loop.induct)
  case (1 cmp data a i0 j0)
  define i where "i = partitionEqualCmpFunc_i cmp data a i0 j0"
  define j where "j = partitionEqualCmpFunc_j cmp data a i j0"
  have i_ge: "i0 \<le> i" unfolding i_def by (rule partitionEqualCmpFunc_i_ge)
  show ?case
  proof (cases "i > j")
    case True
    then have "partitionEqualCmpFunc_loop cmp data a i0 j0 = (i, data)"
      by (subst partitionEqualCmpFunc_loop.simps) (simp add: i_def j_def Let_def)
    then show ?thesis using i_ge by simp
  next
    case False
    then have eq: "partitionEqualCmpFunc_loop cmp data a i0 j0 =
        partitionEqualCmpFunc_loop cmp (swap data i j) a (i + 1) (j - 1)"
      by (subst partitionEqualCmpFunc_loop.simps) (simp add: i_def j_def Let_def)
    have "i + 1 \<le> fst (partitionEqualCmpFunc_loop cmp (swap data i j) a (i + 1) (j - 1))"
      using "1.IH" [OF i_def j_def False] .
    then show ?thesis using eq i_ge by simp
  qed
qed

lemma partitionEqualCmpFunc_mid: "a < fst (partitionEqualCmpFunc cmp data a b pivot)"
  using partitionEqualCmpFunc_loop_ge [of "a + 1" cmp "swap data a pivot" a "b - 1"]
  by (simp add: partitionEqualCmpFunc_def)

lemma partitionEqualCmpFunc_mid_pair:
  "(mid, d) = partitionEqualCmpFunc cmp data a b pivot \<Longrightarrow> a < mid"
  using partitionEqualCmpFunc_mid [of a cmp data b pivot] by (metis fst_conv)

lemma partitionCmpFunc_mid_pair:
  "(mid, ap, d) = partitionCmpFunc cmp data a b pivot \<Longrightarrow> a < b \<Longrightarrow> a \<le> mid \<and> mid < b"
  using partitionCmpFunc_mid [of a b cmp data pivot] by (metis fst_conv)

function pdqsortCmpFunc ::
  "('a \<Rightarrow> 'a \<Rightarrow> int) \<Rightarrow> 'a list \<Rightarrow> int \<Rightarrow> int \<Rightarrow> int \<Rightarrow> bool \<Rightarrow> bool \<Rightarrow> 'a list" where
  \<comment> \<open>sorts data[a:b]; the loop of the library function, its variables wasBalanced and wasPartitioned being the last two arguments (both true at a call)\<close>
  "pdqsortCmpFunc cmp data a b limit wasBalanced wasPartitioned =
     (let len = b - a in
      if len \<le> 12 then insertionSortCmpFunc cmp data a b
      else if limit = 0 then heapSortCmpFunc cmp data a b
      else
        let (data1, limit1) =
              (if \<not> wasBalanced then (breakPatternsCmpFunc data a b, limit - 1) else (data, limit));
            (pivot0, hint0) = choosePivotCmpFunc cmp data1 a b;
            (data2, pivot, hint) =
              (if hint0 = decreasingHint
               then (reverseRangeCmpFunc data1 a b, (b - 1) - (pivot0 - a), increasingHint)
               else (data1, pivot0, hint0));
            (sorted, data3) =
              (if wasBalanced \<and> wasPartitioned \<and> hint = increasingHint
               then partialInsertionSortCmpFunc cmp data2 a b
               else (False, data2))
        in if sorted then data3
           else if a > 0 \<and> \<not> (cmp (data3 ! nat (a - 1)) (data3 ! nat pivot) < 0) then
             (let (mid, data4) = partitionEqualCmpFunc cmp data3 a b pivot
              in pdqsortCmpFunc cmp data4 mid b limit1 wasBalanced wasPartitioned)
           else
             (let (mid, alreadyPartitioned, data4) = partitionCmpFunc cmp data3 a b pivot;
                  leftLen = mid - a;
                  rightLen = b - mid;
                  balanceThreshold = quo len 8
              in if leftLen < rightLen then
                   pdqsortCmpFunc cmp (pdqsortCmpFunc cmp data4 a mid limit1 True True)
                     (mid + 1) b limit1 (leftLen \<ge> balanceThreshold) alreadyPartitioned
                 else
                   pdqsortCmpFunc cmp (pdqsortCmpFunc cmp data4 (mid + 1) b limit1 True True)
                     a mid limit1 (rightLen \<ge> balanceThreshold) alreadyPartitioned))"
  by pat_completeness auto
termination
proof (relation "measure (\<lambda>(cmp, data, a, b, limit, wb, wp). nat (b - a))", goal_cases)
  case 1
  show ?case by simp
next
  case (2 cmp data a b limit wb wp x xa xb y xaa xab ya xac xad yaa xae yab xaf xag yac xc xd yad)
  then have "(xd, yad) = partitionEqualCmpFunc cmp yac a b xae" by simp
  then have "a < xd" by (rule partitionEqualCmpFunc_mid_pair)
  then show ?case using 2(1,2) by simp
next
  case (3 cmp data a b limit wb wp x xa xb y xaa xab ya xac xad yaa xae yab xaf xag yac xah xai yad xaj yae xak xal xam)
  then have "(xai, xaj, yae) = partitionCmpFunc cmp yac a b xae" by simp
  then have "a \<le> xai \<and> xai < b" using 3(1,2) by (intro partitionCmpFunc_mid_pair) simp_all
  then show ?case by simp
next
  case (4 cmp data a b limit wb wp x xa xb y xaa xab ya xac xad yaa xae yab xaf xag yac xah xai yad xaj yae xak xal xam)
  then have "(xai, xaj, yae) = partitionCmpFunc cmp yac a b xae" by simp
  then have "a \<le> xai \<and> xai < b" using 4(1,2) by (intro partitionCmpFunc_mid_pair) simp_all
  then show ?case by simp
next
  case (5 cmp data a b limit wb wp x xa xb y xaa xab ya xac xad yaa xae yab xaf xag yac xah xai yad xaj yae xak xal xam)
  then have "(xai, xaj, yae) = partitionCmpFunc cmp yac a b xae" by simp
  then have "a \<le> xai \<and> xai < b" using 5(1,2) by (intro partitionCmpFunc_mid_pair) simp_all
  then show ?case by simp
next
  case (6 cmp data a b limit wb wp x xa xb y xaa xab ya xac xad yaa xae yab xaf xag yac xah xai yad xaj yae xak xal xam)
  then have "(xai, xaj, yae) = partitionCmpFunc cmp yac a b xae" by simp
  then have "a \<le> xai \<and> xai < b" using 6(1,2) by (intro partitionCmpFunc_mid_pair) simp_all
  then show ?case by simp
qed
declare pdqsortCmpFunc.simps [simp del]

definition SortFunc :: "('a \<Rightarrow> 'a \<Rightarrow> int) \<Rightarrow> 'a list \<Rightarrow> 'a list" where
  \<comment> \<open>slices.SortFunc: pdqsortCmpFunc(x, 0, n, bits.Len(uint(n)), cmp)\<close>
  "SortFunc cmp x = (let n = length x in pdqsortCmpFunc cmp x 0 (int n) (int (bitsLen n)) True True)"

text \<open>
  What the inner loop of the insertion sort does to the sorted prefix, as a function on
  lists: the prefix is given from its last element to its first, and the new element
  moves left past the elements it is less than.
\<close>

fun insertFromRight :: "('a \<Rightarrow> 'a \<Rightarrow> int) \<Rightarrow> 'a \<Rightarrow> 'a list \<Rightarrow> 'a list" where
  "insertFromRight cmp x [] = [x]"
| "insertFromRight cmp x (y # ys) = (if cmp x y < 0 then y # insertFromRight cmp x ys else x # y # ys)"

section \<open>Selecting the default address\<close>

text \<open>
  The collaborators of \<open>FindDefaultIP\<close> are parameters of the model:
  \<^item> \<open>getRoutes\<close>, the value the package variable \<open>getRoutes\<close> returns when it is called;
  \<^item> \<open>InterfaceByName\<close> and \<open>Addrs\<close>, for \<open>net.InterfaceByName\<close> and the
    method \<open>Addrs\<close> of the interface it returns;
  \<^item> \<open>visit\<close>, for the order in which \<open>range\<close> visits the keys of a Go map, which the
    language leaves open: the keys are visited by increasing \<open>visit\<close>, and every order
    of the keys is that of some \<open>visit\<close>;
  \<^item> \<open>srt\<close>, for \<open>slices.SortFunc\<close>.
\<close>

datatype IP = IPv4len "32 word" | IPv6len "128 word"
  \<comment> \<open>net.IP as the system returns it: 4 bytes or 16 bytes\<close>

datatype netAddr = IPNet IP | OtherAddr
  \<comment> \<open>net.Addr: a *net.IPNet, or a value of another type\<close>

definition To4 :: "IP \<Rightarrow> 32 word option" where
  \<comment> \<open>IP.To4: nil unless the address has 4 bytes or is IPv4-mapped\<close>
  "To4 ip = (case ip of
       IPv4len w \<Rightarrow> Some w
     | IPv6len w \<Rightarrow> if drop_bit 32 w = 0xffff then Some (ucast w) else None)"

definition AddrFrom16 :: "IP \<Rightarrow> Addr" where
  \<comment> \<open>netip.AddrFrom16, called only where \<open>To4\<close> is nil, so on 16 bytes\<close>
  "AddrFrom16 ip = (case ip of IPv4len w \<Rightarrow> Addr4 w | IPv6len w \<Rightarrow> Addr6 w [])"

record ipWeight =
  addr :: Addr
  weight :: int

definition ulaEnd :: Addr where
  "ulaEnd = Addr6 0xfdffffffffffffffffffffffffffffff []"

definition ulaStart :: Addr where
  "ulaStart = Addr6 0xfd000000000000000000000000000000 []"

definition isULA :: "Addr \<Rightarrow> bool" where
  "isULA a = (Compare a ulaStart \<ge> 0 \<and> Compare a ulaEnd \<le> 0)"

definition weightOf :: "Addr \<Rightarrow> int" where
  \<comment> \<open>the weight the first loop of sortWeighted computes for an address\<close>
  "weightOf v =
     (let weight = 0;
          weight = (if isULA v then weight + 2 else weight);
          weight = (if IsPrivate v then weight + 1 else weight);
          weight = (if IsGlobalUnicast v then weight + 1 else weight)
      in weight)"

definition cmpCompare :: "int \<Rightarrow> int \<Rightarrow> int" where
  \<comment> \<open>cmp.Compare on integers\<close>
  "cmpCompare x y = (if x < y then -1 else if x > y then 1 else 0)"

definition byWeight :: "ipWeight \<Rightarrow> ipWeight \<Rightarrow> int" where
  \<comment> \<open>the comparison sortWeighted passes to slices.SortFunc\<close>
  "byWeight a b = cmpCompare (weight b) (weight a)"

type_synonym 'a sortFunc = "('a \<Rightarrow> 'a \<Rightarrow> int) \<Rightarrow> 'a list \<Rightarrow> 'a list"

definition weightList :: "Addr list \<Rightarrow> ipWeight list" where
  "weightList list = map (\<lambda>v. \<lparr>addr = v, weight = weightOf v\<rparr>) list"

definition sortWeighted :: "ipWeight sortFunc \<Rightarrow> Addr list \<Rightarrow> Addr list" where
  \<comment> \<open>the slice is sorted in place: the result is its content afterwards; the line the
      function prints for each address is left out\<close>
  "sortWeighted srt list =
     (if length list = 0 then list
      else map addr (srt byWeight (weightList list)))"

definition selectIP :: "ipWeight sortFunc \<Rightarrow> NetRouteKind \<Rightarrow> Addr list \<Rightarrow> Addr option outcome" where
  \<comment> \<open>the result is a pointer: Some for the address of list[0], never nil\<close>
  "selectIP srt kind list0 =
     (let list = filter (\<lambda>i. (kind = NetRouteKindV6 \<and> Is6 i) \<or> (kind = NetRouteKindV4 \<and> Is4 i)) list0;
          list = sortWeighted srt list
      in case list of [] \<Rightarrow> Panics IndexOutOfRange | x # xs \<Rightarrow> Returns (Some x))"

fun addrsOf :: "NetRouteKind \<Rightarrow> string \<Rightarrow> netAddr list \<Rightarrow> Addr list" where
  \<comment> \<open>the loop over the addresses of one interface\<close>
  "addrsOf kind name [] = []"
| "addrsOf kind name (v # ips) =
     (case v of
        OtherAddr \<Rightarrow> addrsOf kind name ips
      | IPNet ip \<Rightarrow>
          (case To4 ip of
             Some w \<Rightarrow>
               if kind \<noteq> NetRouteKindV4 then addrsOf kind name ips
               else WithZone (Addr4 w) name # addrsOf kind name ips
           | None \<Rightarrow>
               if kind \<noteq> NetRouteKindV6 then addrsOf kind name ips
               else WithZone (AddrFrom16 ip) name # addrsOf kind name ips))"

fun collectAddrs ::
  "(string \<Rightarrow> error option) \<Rightarrow> (string \<Rightarrow> error + netAddr list) \<Rightarrow> NetRouteKind \<Rightarrow>
   string list \<Rightarrow> Addr list \<Rightarrow> error + Addr list" where
  \<comment> \<open>the loop over the interfaces, which returns at the first error\<close>
  "collectAddrs InterfaceByName Addrs kind [] addrs = Inr addrs"
| "collectAddrs InterfaceByName Addrs kind (name # names) addrs =
     (case InterfaceByName name of
        Some err \<Rightarrow> Inl (ErrCouldNotGetInterface name err)
      | None \<Rightarrow>
          (case Addrs name of
             Inl err \<Rightarrow> Inl (ErrCouldNotGetIPs name err)
           | Inr ips \<Rightarrow>
               collectAddrs InterfaceByName Addrs kind names (addrs @ addrsOf kind name ips)))"

definition FindDefaultIP ::
  "ipWeight sortFunc \<Rightarrow> (error + NetRoute list) \<Rightarrow> (string \<Rightarrow> error option) \<Rightarrow>
   (string \<Rightarrow> error + netAddr list) \<Rightarrow> (string \<Rightarrow> nat) \<Rightarrow> NetRouteKind \<Rightarrow>
   (error + Addr) outcome" where
  "FindDefaultIP srt getRoutes InterfaceByName Addrs visit kind =
     (case getRoutes of
        Inl err \<Rightarrow> Panics (PanicError err)
      | Inr routes0 \<Rightarrow>
          let routes = filter (\<lambda>i. HasFlags i [''U'', ''G'']) routes0;
              ifaces = sort_key visit (remdups (map Netif routes))
          in case collectAddrs InterfaceByName Addrs kind ifaces [] of
               Inl err \<Rightarrow> Returns (Inl err)
             | Inr addrs \<Rightarrow>
                 (case selectIP srt kind addrs of
                    Panics p \<Rightarrow> Panics p
                  | Returns (Some ip) \<Rightarrow> Returns (Inr ip)
                  | Returns None \<Rightarrow> Returns (Inl ErrNoIP)))"

section \<open>Example data\<close>

text \<open>
  The closed examples below need an address parser. \<open>sampleParseAddr\<close> gives the
  results of \<open>netip.ParseAddr\<close> on the tokens that occur in them.
\<close>

definition sampleParseAddr :: parseAddr where
  "sampleParseAddr s =
     (if s = ''0.0.0.0'' then Inr (Addr4 0)
      else if s = ''192.168.1.1'' then Inr (Addr4 0xC0A80101)
      else if s = ''::'' then Inr (Addr6 0 [])
      else if s = ''fe80::1'' then Inr (Addr6 0xfe800000000000000000000000000001 [])
      else Inl (ErrParseAddr s))"

definition sampleColumns :: "string \<rightharpoonup> int" where
  \<comment> \<open>the columns of the header line "Destination Gateway Flags Netif Expire"\<close>
  "sampleColumns = [nsDestination \<mapsto> 0, nsGateway \<mapsto> 1, nsFlags \<mapsto> 2, nsNetif \<mapsto> 3]"

definition sampleRoute :: NetRoute where
  "sampleRoute = \<lparr>Kind = NetRouteKindV4, Destination = Addr4 0, Flags = ''UGSc'',
                   Netif = ''en0'', Gateway = Addr4 0xC0A80101\<rparr>"

definition sampleParser4 :: netstatParser where
  "sampleParser4 = \<lparr>state = netstatParserStateInternet4Data, netData = [],
      net4Fields = sampleColumns, net6Fields = Map.empty\<rparr>"

definition sampleParser6 :: netstatParser where
  "sampleParser6 = \<lparr>state = netstatParserStateInternet6Data, netData = [],
      net4Fields = Map.empty, net6Fields = sampleColumns\<rparr>"

definition sampleParserH :: netstatParser where
  \<comment> \<open>a parser that has read one IPv4 section and waits for the next section\<close>
  "sampleParserH = \<lparr>state = netstatParserStateInternetHeader, netData = [sampleRoute],
      net4Fields = sampleColumns, net6Fields = Map.empty\<rparr>"

definition hostRoute :: NetRoute where
  \<comment> \<open>a route to one host through a gateway: up, gateway, host\<close>
  "hostRoute = \<lparr>Kind = NetRouteKindV4, Destination = Addr4 0x0A010101, Flags = ''UGH'',
                 Netif = ''en0'', Gateway = Addr4 0xC0A80101\<rparr>"

definition sampleInterfaceByName :: "string \<Rightarrow> error option" where
  \<comment> \<open>a machine whose only interface is en0\<close>
  "sampleInterfaceByName name =
     (if name = ''en0'' then None else Some (ErrOther ''no such network interface''))"

definition sampleAddrs :: "string \<Rightarrow> error + netAddr list" where
  \<comment> \<open>en0 is bound to 192.168.1.5\<close>
  "sampleAddrs name = Inr [IPNet (IPv4len 0xC0A80105)]"

definition sampleAddrs3 :: "Addr list" where
  \<comment> \<open>8.8.8.8, 192.168.1.5 and 10.0.0.1\<close>
  "sampleAddrs3 = [Addr4 0x08080808, Addr4 0xC0A80105, Addr4 0x0A000001]"

definition sampleAddrs13 :: "Addr list" where
  \<comment> \<open>10.0.0.1 to 10.0.0.13, with the link-local 169.254.0.7 in the seventh place\<close>
  "sampleAddrs13 =
     [Addr4 0x0A000001, Addr4 0x0A000002, Addr4 0x0A000003, Addr4 0x0A000004, Addr4 0x0A000005,
      Addr4 0x0A000006, Addr4 0xA9FE0007, Addr4 0x0A000008, Addr4 0x0A000009, Addr4 0x0A00000A,
      Addr4 0x0A00000B, Addr4 0x0A00000C, Addr4 0x0A00000D]"

definition sampleWeights13b :: "ipWeight list" where
  \<comment> \<open>the weighted addresses of sampleAddrs13 after the first partition\<close>
  "sampleWeights13b =
     [\<lparr>addr = Addr4 0x0A00000A, weight = 2\<rparr>, \<lparr>addr = Addr4 0x0A000002, weight = 2\<rparr>,
      \<lparr>addr = Addr4 0x0A000003, weight = 2\<rparr>, \<lparr>addr = Addr4 0x0A000004, weight = 2\<rparr>,
      \<lparr>addr = Addr4 0x0A000005, weight = 2\<rparr>, \<lparr>addr = Addr4 0x0A000006, weight = 2\<rparr>,
      \<lparr>addr = Addr4 0xA9FE0007, weight = 0\<rparr>, \<lparr>addr = Addr4 0x0A000008, weight = 2\<rparr>,
      \<lparr>addr = Addr4 0x0A000009, weight = 2\<rparr>, \<lparr>addr = Addr4 0x0A000001, weight = 2\<rparr>,
      \<lparr>addr = Addr4 0x0A00000B, weight = 2\<rparr>, \<lparr>addr = Addr4 0x0A00000C, weight = 2\<rparr>,
      \<lparr>addr = Addr4 0x0A00000D, weight = 2\<rparr>]"

text \<open>
  The token of a data row that stands in a recorded column, if the row has one, and the
  destination token as the parser rewrites it before it parses it.
\<close>

abbreviation token4 :: "netstatParser \<Rightarrow> string \<Rightarrow> string \<Rightarrow> string option" where
  "token4 n line column \<equiv> index (Fields (TrimSpace line)) (mapGet (net4Fields n) column)"

abbreviation token6 :: "netstatParser \<Rightarrow> string \<Rightarrow> string \<Rightarrow> string option" where
  "token6 n line column \<equiv> index (Fields (TrimSpace line)) (mapGet (net6Fields n) column)"

abbreviation rewritten4 :: "string \<Rightarrow> string" where
  "rewritten4 d \<equiv> (if d = ''default'' then ''0.0.0.0'' else d)"

abbreviation rewritten6 :: "string \<Rightarrow> string" where
  "rewritten6 d \<equiv>
     (let d1 = (if d = ''default'' then ''::'' else d)
      in if ContainsRune d1 (CHR ''/'') then beforeSep d1 (CHR ''/'') else d1)"

section \<open>The parser: header lines\<close>

lemmas stringEval = ToLower_def toLowerChar_def char_of_def bit_Suc_0_iff TrimSpace_def isSpace_def
  Fields_def ContainsAny_def ContainsRune_def beforeSep_def

lemmas columnEval = sampleColumns_def mapGet_def index_def fieldIdx_def
  nsDestination_def nsGateway_def nsFlags_def nsNetif_def nsInterface_def

text \<open>
  C7, as amended. \<open>feed\<close> trims the line before it looks at it. For a parser in the
  Header state, \<open>feed\<close> returns the CantParse error, and leaves the parser as it is, iff
  the line with the white space around it removed is not "routing tables" up to the case
  of its letters; otherwise it returns no error and the parser is in the InternetHeader
  state.
\<close>

theorem feed_Header_trimmed:
  assumes "state n = netstatParserStateHeader"
  shows "feed pa n line =
     (if ToLower (TrimSpace line) = ''routing tables''
      then Returns (None, n\<lparr>state := netstatParserStateInternetHeader\<rparr>)
      else Returns (Some ErrCantParse, n))"
  using assms by (simp add: feed_def parseHeader_def)

theorem feed_Header_trimmed_witness:
  "state newNetstatParser = netstatParserStateHeader \<and>
   feed sampleParseAddr newNetstatParser ''Routing tables'' =
     Returns (None, newNetstatParser\<lparr>state := netstatParserStateInternetHeader\<rparr>) \<and>
   feed sampleParseAddr newNetstatParser ''Kernel IP routing table'' =
     Returns (Some ErrCantParse, newNetstatParser)"
  using feed_Header_trimmed [of newNetstatParser sampleParseAddr "''Routing tables''"]
    feed_Header_trimmed [of newNetstatParser sampleParseAddr "''Kernel IP routing table''"]
  by (simp add: newNetstatParser_def stringEval)

text \<open>
  C7 as stated fails on a line with white space around the banner: the line below is
  not equal to "routing tables" in any case of its letters, and a fresh parser accepts it.
\<close>

theorem feed_Header_padded_counterexample:
  "ToLower ''  Routing tables '' \<noteq> ''routing tables'' \<and>
   feed sampleParseAddr newNetstatParser ''  Routing tables '' =
     Returns (None, newNetstatParser\<lparr>state := netstatParserStateInternetHeader\<rparr>)"
  by (simp add: feed_def parseHeader_def newNetstatParser_def stringEval)

text \<open>
  C9, as amended. In the InternetHeader state \<open>feed\<close> never returns an error. A line
  that is empty once trimmed leaves the parser as it is. A line that, once trimmed, is
  "internet:" or "internet6:" up to case starts the header of that family. Every other
  line resets the parser: it is in the Header state and has no routes, so that
  \<open>result\<close> gives the empty list.
\<close>

theorem feed_InternetHeader_trimmed:
  assumes "state n = netstatParserStateInternetHeader"
  shows "(TrimSpace line = [] \<longrightarrow> feed pa n line = Returns (None, n)) \<and>
         (ToLower (TrimSpace line) = ''internet:'' \<longrightarrow>
            feed pa n line = Returns (None, n\<lparr>state := netstatParserStateInternet4Header\<rparr>)) \<and>
         (ToLower (TrimSpace line) = ''internet6:'' \<longrightarrow>
            feed pa n line = Returns (None, n\<lparr>state := netstatParserStateInternet6Header\<rparr>)) \<and>
         (TrimSpace line \<noteq> [] \<and> ToLower (TrimSpace line) \<noteq> ''internet:'' \<and>
          ToLower (TrimSpace line) \<noteq> ''internet6:'' \<longrightarrow>
            feed pa n line = Returns (None, reset n) \<and>
            state (reset n) = netstatParserStateHeader \<and> result (reset n) = [])"
  using assms
  by (auto simp add: feed_def parseInternetHeader_def reset_def result_def ToLower_def)

theorem feed_InternetHeader_trimmed_witness:
  "state sampleParserH = netstatParserStateInternetHeader \<and>
   result sampleParserH = [sampleRoute] \<and>
   feed sampleParseAddr sampleParserH ''   '' = Returns (None, sampleParserH) \<and>
   feed sampleParseAddr sampleParserH ''Internet6:'' =
     Returns (None, sampleParserH\<lparr>state := netstatParserStateInternet6Header\<rparr>) \<and>
   feed sampleParseAddr sampleParserH ''Protocol Family 30:'' = Returns (None, reset sampleParserH) \<and>
   state (reset sampleParserH) = netstatParserStateHeader \<and>
   result (reset sampleParserH) = []"
  using feed_InternetHeader_trimmed [of sampleParserH "''   ''" sampleParseAddr]
    feed_InternetHeader_trimmed [of sampleParserH "''Internet6:''" sampleParseAddr]
    feed_InternetHeader_trimmed [of sampleParserH "''Protocol Family 30:''" sampleParseAddr]
  by (simp add: sampleParserH_def result_def stringEval)

text \<open>
  C9 as stated fails on a line with white space before the section name: the line is
  not blank and is not equal to "internet:" up to case, and the parser does not reset:
  it keeps its route and goes on to the IPv4 header.
\<close>

theorem feed_InternetHeader_padded_counterexample:
  "TrimSpace '' internet:'' \<noteq> [] \<and>
   ToLower '' internet:'' \<noteq> ''internet:'' \<and> ToLower '' internet:'' \<noteq> ''internet6:'' \<and>
   feed sampleParseAddr sampleParserH '' internet:'' =
     Returns (None, sampleParserH\<lparr>state := netstatParserStateInternet4Header\<rparr>) \<and>
   result (sampleParserH\<lparr>state := netstatParserStateInternet4Header\<rparr>) = [sampleRoute]"
  by (simp add: feed_def parseInternetHeader_def sampleParserH_def result_def stringEval)

text \<open>
  C5. The header line below has both an Interface and a Netif column, Interface being
  the first column of the line (index 0). The parser takes \<open>iface > 0\<close> for "there is
  an Interface column" and so records the index of Netif, 4, as the interface-name
  column, in the IPv4 and in the IPv6 header state alike.
\<close>

theorem parseInternetHeader_Interface_first:
  "fieldIdx (Fields ''Interface Destination Gateway Flags Netif'') nsInterface = 0 \<and>
   fieldIdx (Fields ''Interface Destination Gateway Flags Netif'') nsNetif = 4 \<and>
   (case feed sampleParseAddr (newNetstatParser\<lparr>state := netstatParserStateInternet4Header\<rparr>)
           ''Interface Destination Gateway Flags Netif'' of
      Returns (err, n) \<Rightarrow>
        err = None \<and> state n = netstatParserStateInternet4Data \<and> net4Fields n nsNetif = Some 4
    | Panics p \<Rightarrow> False) \<and>
   (case feed sampleParseAddr (newNetstatParser\<lparr>state := netstatParserStateInternet6Header\<rparr>)
           ''Interface Destination Gateway Flags Netif'' of
      Returns (err, n) \<Rightarrow>
        err = None \<and> state n = netstatParserStateInternet6Data \<and> net6Fields n nsNetif = Some 4
    | Panics p \<Rightarrow> False)"
  by (simp add: feed_def parseInternetHeader4_def parseInternetHeader6_def newNetstatParser_def
      stringEval columnEval)

section \<open>The parser: data rows\<close>

lemma index_Some_nth: "index xs i = Some x \<Longrightarrow> xs ! nat i = x"
  by (auto simp: index_def split: if_splits)

lemma index_Some_less: "index xs i = Some x \<Longrightarrow> nat i < length xs"
  by (auto simp: index_def split: if_splits)

lemma index_Some_neq: "index xs i = Some x \<Longrightarrow> index xs j = Some y \<Longrightarrow> i \<noteq> j \<Longrightarrow> nat i \<noteq> nat j"
  by (auto simp: index_def split: if_splits)

lemma index_list_update_None [simp]: "index (xs[k := v]) i = None \<longleftrightarrow> index xs i = None"
  by (simp add: index_def)

lemma feed6_destination_fails:
  assumes "state n = netstatParserStateInternet6Data" "TrimSpace line \<noteq> []"
    "token6 n line nsGateway = Some g" "token6 n line nsDestination = Some d"
    "\<not> ContainsRune g (CHR ''#'')"
    "pa (rewritten6 d) = Inl e"
  shows "feed pa n line = Returns (Some e, n)"
  using assms index_Some_less [OF assms(4)] index_Some_nth [OF assms(4)]
  by (auto simp add: feed_def parseInternet6Data_def Let_def ContainsRune_def)

lemma feed6_gateway_fails:
  assumes "state n = netstatParserStateInternet6Data" "TrimSpace line \<noteq> []"
    "token6 n line nsGateway = Some g" "token6 n line nsDestination = Some d"
    "mapGet (net6Fields n) nsGateway \<noteq> mapGet (net6Fields n) nsDestination"
    "\<not> ContainsRune g (CHR ''#'')"
    "pa (rewritten6 d) = Inr a"
    "pa g = Inl e"
  shows "feed pa n line = Returns (None, n)"
  using assms index_Some_less [OF assms(4)] index_Some_nth [OF assms(4)] index_Some_nth [OF assms(3)]
    index_Some_neq [OF assms(3) assms(4) assms(5)]
  by (auto simp add: feed_def parseInternet6Data_def Let_def ContainsRune_def)

lemma feed4_address_fails:
  assumes "state n = netstatParserStateInternet4Data" "TrimSpace line \<noteq> []"
    "token4 n line nsGateway = Some g" "token4 n line nsDestination = Some d"
    "mapGet (net4Fields n) nsGateway \<noteq> mapGet (net4Fields n) nsDestination"
    "pa (rewritten4 d) = Inl e \<or> pa g = Inl e"
  shows "feed pa n line = Returns (None, n)"
proof (cases "ContainsAny g ''#:''")
  case True
  then show ?thesis using assms(1,2,3) by (simp add: feed_def parseInternet4Data_def Let_def)
next
  case False
  note facts = index_Some_less [OF assms(4)] index_Some_nth [OF assms(4)] index_Some_nth [OF assms(3)]
    index_Some_neq [OF assms(3) assms(4) assms(5)]
  show ?thesis
  proof (cases "d = ''default''")
    case True
    then show ?thesis using assms False facts
      by (auto simp add: feed_def parseInternet4Data_def Let_def split: sum.splits)
  next
    case nd: False
    then show ?thesis using assms False facts
      by (auto simp add: feed_def parseInternet4Data_def Let_def split: sum.splits)
  qed
qed







text \<open>
  C6, as amended. A data row is read in this order: the gateway token is looked at for
  a link-level address, then the destination is rewritten and parsed, then the gateway
  is parsed. For a row with a token in the gateway and in the destination column:
  \<^item> in the Internet6Data state, when the gateway has no \<open>#\<close> and the rewritten
    destination fails to parse, \<open>feed\<close> returns that parse error;
  \<^item> in the Internet6Data state, when the gateway has no \<open>#\<close>, the destination
    parses and the gateway fails to parse, \<open>feed\<close> returns no error;
  \<^item> in the Internet4Data state, when the destination or the gateway fails to
    parse, \<open>feed\<close> returns no error.
  In all three cases the parser is left as it was: no route is appended.
\<close>

theorem data_row_parse_failures:
  "(state n = netstatParserStateInternet6Data \<and> TrimSpace line \<noteq> [] \<and>
    token6 n line nsGateway = Some g \<and> token6 n line nsDestination = Some d \<and>
    \<not> ContainsRune g (CHR ''#'') \<and> pa (rewritten6 d) = Inl e
      \<longrightarrow> feed pa n line = Returns (Some e, n)) \<and>
   (state n = netstatParserStateInternet6Data \<and> TrimSpace line \<noteq> [] \<and>
    token6 n line nsGateway = Some g \<and> token6 n line nsDestination = Some d \<and>
    mapGet (net6Fields n) nsGateway \<noteq> mapGet (net6Fields n) nsDestination \<and>
    \<not> ContainsRune g (CHR ''#'') \<and> pa (rewritten6 d) = Inr a \<and> pa g = Inl e
      \<longrightarrow> feed pa n line = Returns (None, n)) \<and>
   (state n = netstatParserStateInternet4Data \<and> TrimSpace line \<noteq> [] \<and>
    token4 n line nsGateway = Some g \<and> token4 n line nsDestination = Some d \<and>
    mapGet (net4Fields n) nsGateway \<noteq> mapGet (net4Fields n) nsDestination \<and>
    (pa (rewritten4 d) = Inl e \<or> pa g = Inl e)
      \<longrightarrow> feed pa n line = Returns (None, n))"
  using feed6_destination_fails [of n line g d pa e] feed6_gateway_fails [of n line g d pa a e]
    feed4_address_fails [of n line g d pa e]
  by blast

theorem data_row_parse_failures_witness:
  "feed sampleParseAddr sampleParser6 ''bogus fe80::1 UG en0'' =
     Returns (Some (ErrParseAddr ''bogus''), sampleParser6) \<and>
   feed sampleParseAddr sampleParser6 ''default bogus UG en0'' = Returns (None, sampleParser6) \<and>
   feed sampleParseAddr sampleParser4 ''bogus 192.168.1.1 UG en0'' = Returns (None, sampleParser4)"
  using
    data_row_parse_failures [where n = sampleParser6 and line = "''bogus fe80::1 UG en0''"
      and g = "''fe80::1''" and d = "''bogus''" and pa = sampleParseAddr
      and e = "ErrParseAddr ''bogus''"]
    data_row_parse_failures [where n = sampleParser6 and line = "''default bogus UG en0''"
      and g = "''bogus''" and d = "''default''" and pa = sampleParseAddr
      and a = "Addr6 0 []" and e = "ErrParseAddr ''bogus''"]
    data_row_parse_failures [where n = sampleParser4 and line = "''bogus 192.168.1.1 UG en0''"
      and g = "''192.168.1.1''" and d = "''bogus''" and pa = sampleParseAddr
      and e = "ErrParseAddr ''bogus''"]
  by (simp add: sampleParser6_def sampleParser4_def sampleParseAddr_def stringEval columnEval)

text \<open>
  C6 as stated fails on an IPv6 row with a link-level gateway: its destination token
  cannot be parsed, and \<open>feed\<close> skips the row without an error, because it looks at
  the gateway first.
\<close>

theorem data_row_link_level_counterexample:
  "token6 sampleParser6 ''bogus link#1 UHLI lo0'' nsDestination = Some ''bogus'' \<and>
   sampleParseAddr (rewritten6 ''bogus'') = Inl (ErrParseAddr ''bogus'') \<and>
   feed sampleParseAddr sampleParser6 ''bogus link#1 UHLI lo0'' = Returns (None, sampleParser6)"
  by (simp add: feed_def parseInternet6Data_def sampleParser6_def sampleParseAddr_def
      stringEval columnEval)




section \<open>The selection\<close>

lemmas addrEval = isULA_def Compare_def BitLen_def uint128_def ulaStart_def ulaEnd_def Is6_def Is4_def
  Zone_def weightOf_def IsPrivate_def IsGlobalUnicast_def IsLoopback_def IsMulticast_def
  IsLinkLocalUnicast_def Is4In6_def Unmap_def v4_def v6_def v6u16_def WithZone_def To4_def AddrFrom16_def

lemma pdqsortCmpFunc_short:
  "b - a \<le> 12 \<Longrightarrow> pdqsortCmpFunc cmp data a b limit wb wp = insertionSortCmpFunc cmp data a b"
  by (subst pdqsortCmpFunc.simps) simp

lemmas shortSortEval = SortFunc_def pdqsortCmpFunc_short insertionSortCmpFunc_def
  insertionSortCmpFunc_i.simps insertionSortCmpFunc_j.simps swap_def byWeight_def cmpCompare_def

text \<open>
  C1. \<open>FindDefaultIP\<close> filters the routes with \<open>HasFlags("U", "G")\<close> alone; the
  predicate \<open>filterRoute\<close>, which also refuses the flag H, is used by \<open>FindDefaults\<close>
  only. With the host route \<open>hostRoute\<close> (flags UGH) as the only route of the table,
  \<open>filterRoute\<close> refuses the route and \<open>FindDefaults\<close> finds no default route, while
  \<open>FindDefaultIP\<close> takes the route as a candidate and returns the address of its
  interface.
\<close>

theorem FindDefaultIP_host_route:
  "\<not> filterRoute hostRoute \<and>
   FindDefaults [hostRoute] NetRouteKindV4 = [] \<and>
   FindDefaultIP SortFunc (Inr [hostRoute]) sampleInterfaceByName sampleAddrs (\<lambda>name. 0) NetRouteKindV4 =
     Returns (Inr (Addr4 0xC0A80105))"
  by (simp add: FindDefaultIP_def selectIP_def sortWeighted_def hostRoute_def sampleInterfaceByName_def
      sampleAddrs_def NetRouteKindV4_def NetRouteKindV6_def addrEval filterRoute_def FindDefaults_def
      weightList_def shortSortEval)

text \<open>
  C2. \<open>selectIP\<close> returns the address of \<open>list[0]\<close> with no check of the length, so on
  an empty candidate list it ends in an index out of range, and the line of
  \<open>FindDefaultIP\<close> that returns \<open>ErrNoIP\<close> is never reached. For every kind, sort
  function and collaborators: a route table that is empty, or that has no route with the
  flags U and G, ends \<open>FindDefaultIP\<close> in that panic; so does a default route whose
  interface has no address of the requested family (here: IPv6 asked, IPv4 bound).
\<close>

theorem FindDefaultIP_no_candidate:
  "selectIP srt kind [] = Panics IndexOutOfRange \<and>
   FindDefaultIP srt (Inr []) InterfaceByName Addrs visit kind = Panics IndexOutOfRange \<and>
   FindDefaultIP srt (Inr (filter (\<lambda>r. \<not> HasFlags r [''U'', ''G'']) routes))
     InterfaceByName Addrs visit kind = Panics IndexOutOfRange \<and>
   FindDefaultIP srt (Inr [sampleRoute]) sampleInterfaceByName sampleAddrs visit NetRouteKindV6 =
     Panics IndexOutOfRange"
  by (simp add: FindDefaultIP_def selectIP_def sortWeighted_def sampleRoute_def
      sampleInterfaceByName_def sampleAddrs_def NetRouteKindV4_def NetRouteKindV6_def addrEval)

text \<open>
  C3. When the route source returns an error, \<open>FindDefaultIP\<close> does not return it: it
  panics with the error as the panic value, whatever the error, the kind and the other
  collaborators are.
\<close>

theorem FindDefaultIP_getRoutes_error:
  "FindDefaultIP srt (Inl err) InterfaceByName Addrs visit kind = Panics (PanicError err)"
  by (simp add: FindDefaultIP_def)

text \<open>
  C8. \<open>isULA\<close> compares with \<open>Addr.Compare\<close>, which orders an IPv6 address with a zone
  just after the same address without one. The bounds \<open>ulaStart\<close> and \<open>ulaEnd\<close> have
  no zone, and \<open>FindDefaultIP\<close> gives every IPv6 candidate the name of its interface as
  zone. So the last address of the range, with a zone, compares greater than
  \<open>ulaEnd\<close>: it is not counted as unique-local and weighs 2 instead of 4. (No IPv4
  address is counted as unique-local.)
\<close>

theorem isULA_last_address_with_zone:
  "isULA (Addr6 0xfdffffffffffffffffffffffffffffff []) \<and>
   \<not> isULA (Addr6 0xfdffffffffffffffffffffffffffffff ''en0'') \<and>
   IsPrivate (Addr6 0xfdffffffffffffffffffffffffffffff ''en0'') \<and>
   IsGlobalUnicast (Addr6 0xfdffffffffffffffffffffffffffffff ''en0'') \<and>
   weightOf (Addr6 0xfdffffffffffffffffffffffffffffff ''en0'') = 2 \<and>
   weightOf (Addr6 0xfdfffffffffffffffffffffffffffffe ''en0'') = 4 \<and>
   addrsOf NetRouteKindV6 ''en0'' [IPNet (IPv6len 0xfdffffffffffffffffffffffffffffff)] =
     [Addr6 0xfdffffffffffffffffffffffffffffff ''en0''] \<and>
   \<not> isULA (Addr4 w)"
  by (simp add: addrEval NetRouteKindV4_def NetRouteKindV6_def)

section \<open>The ranking\<close>

text \<open>
  On at most 12 elements \<open>slices.SortFunc\<close> is the insertion sort of the library, and
  the inner loop of that sort is \<open>insertFromRight\<close> on the sorted prefix.
\<close>

lemma length_insertFromRight [simp]: "length (insertFromRight cmp x ys) = Suc (length ys)"
  by (induction ys) auto

lemma swap_adjacent:
  "swap (pre @ y # x # post) (int (Suc (length pre))) (int (length pre)) = pre @ x # y # post"
proof -
  have "nat (int (Suc (length pre))) = Suc (length pre)" "nat (int (length pre)) = length pre"
    by simp_all
  then show ?thesis
    unfolding swap_def by (simp add: nth_append list_update_append del: of_nat_Suc)
qed

lemma insertionSortCmpFunc_j_insert:
  "insertionSortCmpFunc_j cmp (rev ys @ x # post) 0 (int (length ys)) = rev (insertFromRight cmp x ys) @ post"
proof (induction ys arbitrary: post)
  case Nil
  show ?case by (subst insertionSortCmpFunc_j.simps) simp
next
  case (Cons y ys)
  have nth: "(rev ys @ y # x # post) ! Suc (length ys) = x" "(rev ys @ y # x # post) ! length ys = y"
    by (simp_all add: nth_append)
  show ?case
  proof (cases "cmp x y < 0")
    case True
    have "insertionSortCmpFunc_j cmp (rev (y # ys) @ x # post) 0 (int (length (y # ys))) =
          insertionSortCmpFunc_j cmp (swap (rev ys @ y # x # post) (int (Suc (length ys))) (int (length ys))) 0 (int (length ys))"
      using True nth by (subst insertionSortCmpFunc_j.simps) (simp add: nat_add_distrib)
    also have "\<dots> = insertionSortCmpFunc_j cmp (rev ys @ x # y # post) 0 (int (length ys))"
      using swap_adjacent [of "rev ys" y x post] by simp
    also have "\<dots> = rev (insertFromRight cmp x ys) @ y # post"
      by (rule Cons.IH)
    finally show ?thesis using True by simp
  next
    case False
    then show ?thesis using nth
      by (subst insertionSortCmpFunc_j.simps) (simp add: nat_add_distrib)
  qed
qed

lemma insertionSortCmpFunc_i_fold:
  "insertionSortCmpFunc_i cmp (rev ys @ rest) 0 (int (length ys + length rest)) (int (length ys)) =
     rev (foldl (\<lambda>acc x. insertFromRight cmp x acc) ys rest)"
proof (induction rest arbitrary: ys)
  case Nil
  show ?case by (subst insertionSortCmpFunc_i.simps) simp
next
  case (Cons x rest)
  have "insertionSortCmpFunc_i cmp (rev ys @ x # rest) 0 (int (length ys + length (x # rest))) (int (length ys)) =
        insertionSortCmpFunc_i cmp (rev (insertFromRight cmp x ys) @ rest) 0
          (int (length (insertFromRight cmp x ys) + length rest)) (int (length (insertFromRight cmp x ys)))"
    by (subst insertionSortCmpFunc_i.simps) (simp add: insertionSortCmpFunc_j_insert add.commute)
  then show ?case using Cons.IH [of "insertFromRight cmp x ys"] by simp
qed

lemma insertionSortCmpFunc_fold:
  "insertionSortCmpFunc cmp data 0 (int (length data)) = rev (foldl (\<lambda>acc x. insertFromRight cmp x acc) [] data)"
proof (cases data)
  case Nil
  then show ?thesis
    by (simp add: insertionSortCmpFunc_def) (subst insertionSortCmpFunc_i.simps, simp)
next
  case (Cons x rest)
  then show ?thesis
    using insertionSortCmpFunc_i_fold [of cmp "[x]" rest]
    by (simp add: insertionSortCmpFunc_def)
qed

lemma SortFunc_short:
  "length x \<le> 12 \<Longrightarrow> SortFunc cmp x = rev (foldl (\<lambda>acc x. insertFromRight cmp x acc) [] x)"
  by (simp add: SortFunc_def pdqsortCmpFunc_short insertionSortCmpFunc_fold)

lemma mset_insertFromRight [simp]: "mset (insertFromRight cmp x ys) = add_mset x (mset ys)"
  by (induction ys) auto

lemma mset_fold_insertFromRight:
  "mset (foldl (\<lambda>acc x. insertFromRight cmp x acc) ys xs) = mset ys + mset xs"
  by (induction xs arbitrary: ys) auto

lemma set_insertFromRight [simp]: "set (insertFromRight cmp x ys) = insert x (set ys)"
  by (induction ys) auto

lemma sorted_insertFromRight:
  fixes key :: "'a \<Rightarrow> int"
  assumes "\<And>a b. cmp a b < 0 \<longleftrightarrow> key b < key a"
  shows "sorted_wrt (\<lambda>a b. key a \<le> key b) ys \<Longrightarrow>
         sorted_wrt (\<lambda>a b. key a \<le> key b) (insertFromRight cmp x ys)"
proof (induction ys)
  case Nil
  show ?case by simp
next
  case (Cons y ys)
  show ?case
  proof (cases "cmp x y < 0")
    case True
    then have "key y < key x" using assms by simp
    then show ?thesis using True Cons by auto
  next
    case False
    then have "key x \<le> key y" using assms [of x y] by simp
    then show ?thesis using False Cons.prems by fastforce
  qed
qed

lemma sorted_fold_insertFromRight:
  fixes key :: "'a \<Rightarrow> int"
  assumes "\<And>a b. cmp a b < 0 \<longleftrightarrow> key b < key a"
  shows "sorted_wrt (\<lambda>a b. key a \<le> key b) ys \<Longrightarrow>
         sorted_wrt (\<lambda>a b. key a \<le> key b) (foldl (\<lambda>acc x. insertFromRight cmp x acc) ys xs)"
proof (induction xs arbitrary: ys)
  case Nil
  then show ?case by simp
next
  case (Cons x xs)
  have "sorted_wrt (\<lambda>a b. key a \<le> key b) (insertFromRight cmp x ys)"
    using assms Cons.prems by (rule sorted_insertFromRight)
  then show ?case using Cons.IH by simp
qed

lemma filter_insertFromRight:
  fixes key :: "'a \<Rightarrow> int"
  assumes "\<And>a b. cmp a b < 0 \<longleftrightarrow> key b < key a"
  shows "filter (\<lambda>a. key a = k) (insertFromRight cmp x ys) = filter (\<lambda>a. key a = k) (x # ys)"
  using assms by (induction ys) auto

lemma filter_fold_insertFromRight:
  fixes key :: "'a \<Rightarrow> int"
  assumes "\<And>a b. cmp a b < 0 \<longleftrightarrow> key b < key a"
  shows "filter (\<lambda>a. key a = k) (foldl (\<lambda>acc x. insertFromRight cmp x acc) ys xs) =
         filter (\<lambda>a. key a = k) (rev xs @ ys)"
proof (induction xs arbitrary: ys)
  case Nil
  show ?case by simp
next
  case (Cons x xs)
  show ?case
    using Cons.IH [of "insertFromRight cmp x ys"]
      filter_insertFromRight [of cmp key, OF assms, where k = k and x = x and ys = ys]
    by simp
qed

lemma weightList13: "weightList sampleAddrs13 =
     [\<lparr>addr = Addr4 0x0A000001, weight = 2\<rparr>, \<lparr>addr = Addr4 0x0A000002, weight = 2\<rparr>,
      \<lparr>addr = Addr4 0x0A000003, weight = 2\<rparr>, \<lparr>addr = Addr4 0x0A000004, weight = 2\<rparr>,
      \<lparr>addr = Addr4 0x0A000005, weight = 2\<rparr>, \<lparr>addr = Addr4 0x0A000006, weight = 2\<rparr>,
      \<lparr>addr = Addr4 0xA9FE0007, weight = 0\<rparr>, \<lparr>addr = Addr4 0x0A000008, weight = 2\<rparr>,
      \<lparr>addr = Addr4 0x0A000009, weight = 2\<rparr>, \<lparr>addr = Addr4 0x0A00000A, weight = 2\<rparr>,
      \<lparr>addr = Addr4 0x0A00000B, weight = 2\<rparr>, \<lparr>addr = Addr4 0x0A00000C, weight = 2\<rparr>,
      \<lparr>addr = Addr4 0x0A00000D, weight = 2\<rparr>]"
  by (simp add: weightList_def sampleAddrs13_def addrEval)

lemma bitsLen13: "bitsLen 13 = 4"
  by (simp add: bitsLen.simps)

lemma pivot13: "choosePivotCmpFunc byWeight (weightList sampleAddrs13) 0 13 = (9, unknownHint)"
  unfolding weightList13
  by (simp add: choosePivotCmpFunc_def medianCmpFunc_def order2CmpFunc_def quo_def Let_def
      byWeight_def cmpCompare_def)

lemma partition13: "partitionCmpFunc byWeight (weightList sampleAddrs13) 0 13 9 =
  (0, True,
     [\<lparr>addr = Addr4 0x0A00000A, weight = 2\<rparr>, \<lparr>addr = Addr4 0x0A000002, weight = 2\<rparr>,
      \<lparr>addr = Addr4 0x0A000003, weight = 2\<rparr>, \<lparr>addr = Addr4 0x0A000004, weight = 2\<rparr>,
      \<lparr>addr = Addr4 0x0A000005, weight = 2\<rparr>, \<lparr>addr = Addr4 0x0A000006, weight = 2\<rparr>,
      \<lparr>addr = Addr4 0xA9FE0007, weight = 0\<rparr>, \<lparr>addr = Addr4 0x0A000008, weight = 2\<rparr>,
      \<lparr>addr = Addr4 0x0A000009, weight = 2\<rparr>, \<lparr>addr = Addr4 0x0A000001, weight = 2\<rparr>,
      \<lparr>addr = Addr4 0x0A00000B, weight = 2\<rparr>, \<lparr>addr = Addr4 0x0A00000C, weight = 2\<rparr>,
      \<lparr>addr = Addr4 0x0A00000D, weight = 2\<rparr>])"
  unfolding weightList13
  by (simp add: partitionCmpFunc_def Let_def swap_def byWeight_def cmpCompare_def
      partitionCmpFunc_i.simps partitionCmpFunc_j.simps)


lemma ins0: "insertionSortCmpFunc byWeight sampleWeights13b 0 0 = sampleWeights13b"
  by (simp add: insertionSortCmpFunc_def insertionSortCmpFunc_i.simps)

lemma ins1: "insertionSortCmpFunc byWeight sampleWeights13b 1 13 =
     [\<lparr>addr = Addr4 0x0A00000A, weight = 2\<rparr>, \<lparr>addr = Addr4 0x0A000002, weight = 2\<rparr>,
      \<lparr>addr = Addr4 0x0A000003, weight = 2\<rparr>, \<lparr>addr = Addr4 0x0A000004, weight = 2\<rparr>,
      \<lparr>addr = Addr4 0x0A000005, weight = 2\<rparr>, \<lparr>addr = Addr4 0x0A000006, weight = 2\<rparr>,
      \<lparr>addr = Addr4 0x0A000008, weight = 2\<rparr>,
      \<lparr>addr = Addr4 0x0A000009, weight = 2\<rparr>, \<lparr>addr = Addr4 0x0A000001, weight = 2\<rparr>,
      \<lparr>addr = Addr4 0x0A00000B, weight = 2\<rparr>, \<lparr>addr = Addr4 0x0A00000C, weight = 2\<rparr>,
      \<lparr>addr = Addr4 0x0A00000D, weight = 2\<rparr>, \<lparr>addr = Addr4 0xA9FE0007, weight = 0\<rparr>]"
  by (simp add: sampleWeights13b_def insertionSortCmpFunc_def insertionSortCmpFunc_i.simps
      insertionSortCmpFunc_j.simps swap_def byWeight_def cmpCompare_def)

lemma pdqsortCmpFunc_partition_left:
  assumes "12 < b - a" and "limit \<noteq> 0"
    and "choosePivotCmpFunc cmp data a b = (pivot, unknownHint)"
    and "a \<le> 0"
    and "partitionCmpFunc cmp data a b pivot = (mid, alreadyPartitioned, data')"
    and "mid - a < b - mid"
  shows "pdqsortCmpFunc cmp data a b limit True True =
     pdqsortCmpFunc cmp (pdqsortCmpFunc cmp data' a mid limit True True) (mid + 1) b limit
       (quo (b - a) 8 \<le> mid - a) alreadyPartitioned"
  using assms by (subst pdqsortCmpFunc.simps) (simp add: Let_def)

lemma partition13b: "partitionCmpFunc byWeight (weightList sampleAddrs13) 0 13 9 = (0, True, sampleWeights13b)"
  unfolding sampleWeights13b_def by (rule partition13)

lemma sortWeighted13: "sortWeighted SortFunc sampleAddrs13 =
     [Addr4 0x0A00000A, Addr4 0x0A000002, Addr4 0x0A000003, Addr4 0x0A000004, Addr4 0x0A000005,
      Addr4 0x0A000006, Addr4 0x0A000008, Addr4 0x0A000009, Addr4 0x0A000001, Addr4 0x0A00000B,
      Addr4 0x0A00000C, Addr4 0x0A00000D, Addr4 0xA9FE0007]"
proof -
  have len: "length (weightList sampleAddrs13) = 13"
    by (simp add: weightList_def sampleAddrs13_def)
  have "SortFunc byWeight (weightList sampleAddrs13) =
      pdqsortCmpFunc byWeight (weightList sampleAddrs13) 0 13 4 True True"
    by (simp add: SortFunc_def len bitsLen13)
  also have "\<dots> = pdqsortCmpFunc byWeight (pdqsortCmpFunc byWeight sampleWeights13b 0 0 4 True True)
       (0 + 1) 13 4 (quo (13 - 0) 8 \<le> 0 - 0) True"
    by (rule pdqsortCmpFunc_partition_left [OF _ _ pivot13 _ partition13b]) simp_all
  also have "\<dots> = insertionSortCmpFunc byWeight sampleWeights13b 1 13"
    by (simp add: pdqsortCmpFunc_short ins0)
  finally have "SortFunc byWeight (weightList sampleAddrs13) =
      insertionSortCmpFunc byWeight sampleWeights13b 1 13" .
  then show ?thesis
    by (simp add: sortWeighted_def ins1) (simp add: sampleAddrs13_def)
qed

lemma byWeight_less: "byWeight a b < 0 \<longleftrightarrow> weight b < weight a"
  by (simp add: byWeight_def cmpCompare_def)

lemma map_addr_weightList [simp]: "map addr (weightList list) = list"
  by (simp add: weightList_def comp_def)

lemma length_weightList [simp]: "length (weightList list) = length list"
  by (simp add: weightList_def)

lemma weight_weightList: "w \<in> set (weightList list) \<Longrightarrow> weight w = weightOf (addr w)"
  by (auto simp: weightList_def)

lemma filter_weightList:
  "map addr (filter (\<lambda>w. weight w = k) (weightList list)) = filter (\<lambda>a. weightOf a = k) list"
  by (induction list) (auto simp: weightList_def)

lemma ranked_mset:
  assumes "mset ws = mset (weightList list)"
  shows "mset (map addr ws) = mset list"
proof -
  have "mset (map addr ws) = image_mset addr (mset ws)" by simp
  also have "\<dots> = image_mset addr (mset (weightList list))" using assms by simp
  also have "\<dots> = mset (map addr (weightList list))" by (simp only: mset_map)
  finally show ?thesis by simp
qed

lemma ranked_sorted:
  assumes "mset ws = mset (weightList list)"
    and "sorted_wrt (\<lambda>a b. weight b \<le> weight a) ws"
  shows "sorted_wrt (\<lambda>a b. weightOf b \<le> weightOf a) (map addr ws)"
proof -
  have mem: "w \<in> set ws \<Longrightarrow> weight w = weightOf (addr w)" for w
    using assms(1) weight_weightList [of w list] by (metis set_mset_mset)
  have "sorted_wrt (\<lambda>x y. weightOf (addr y) \<le> weightOf (addr x)) ws"
    using assms(2) by (rule sorted_wrt_mono_rel [rotated]) (simp add: mem)
  then show ?thesis by (simp add: sorted_wrt_map)
qed

lemma ranked_stable:
  assumes "mset ws = mset (weightList list)"
    and "filter (\<lambda>w. weight w = k) ws = filter (\<lambda>w. weight w = k) (weightList list)"
  shows "filter (\<lambda>a. weightOf a = k) (map addr ws) = filter (\<lambda>a. weightOf a = k) list"
proof -
  have mem: "w \<in> set ws \<Longrightarrow> weight w = weightOf (addr w)" for w
    using assms(1) weight_weightList [of w list] by (metis set_mset_mset)
  have "filter (\<lambda>a. weightOf a = k) (map addr ws) = map addr (filter (\<lambda>w. weightOf (addr w) = k) ws)"
    by (simp add: filter_map comp_def)
  also have "filter (\<lambda>w. weightOf (addr w) = k) ws = filter (\<lambda>w. weight w = k) ws"
    by (rule filter_cong) (simp_all add: mem)
  finally show ?thesis using assms(2) by (simp add: filter_weightList)
qed

lemma SortFunc_short_mset:
  "length x \<le> 12 \<Longrightarrow> mset (SortFunc cmp x) = mset x"
  by (simp add: SortFunc_short mset_fold_insertFromRight)

lemma SortFunc_short_sorted:
  "length x \<le> 12 \<Longrightarrow> sorted_wrt (\<lambda>a b. weight b \<le> weight a) (SortFunc byWeight x)"
  using sorted_fold_insertFromRight [of byWeight weight "[]" x]
  by (simp add: SortFunc_short sorted_wrt_rev byWeight_less)

lemma SortFunc_short_stable:
  "length x \<le> 12 \<Longrightarrow>
   filter (\<lambda>w. weight w = k) (SortFunc byWeight x) = filter (\<lambda>w. weight w = k) x"
  using filter_fold_insertFromRight [of byWeight weight k "[]" x]
  by (simp add: SortFunc_short rev_filter [symmetric] byWeight_less)

lemma sortWeighted_sorts:
  assumes "mset (srt byWeight (weightList list)) = mset (weightList list)"
    and "sorted_wrt (\<lambda>a b. \<not> byWeight b a < 0) (srt byWeight (weightList list))"
  shows "mset (sortWeighted srt list) = mset list \<and>
         sorted_wrt (\<lambda>a b. weightOf a \<ge> weightOf b) (sortWeighted srt list)"
proof -
  have "sorted_wrt (\<lambda>a b. weight b \<le> weight a) (srt byWeight (weightList list))"
    using assms(2) by (simp add: byWeight_less not_less)
  then show ?thesis
    using ranked_mset [OF assms(1)] ranked_sorted [OF assms(1)]
    by (simp add: sortWeighted_def)
qed

lemma sortWeighted_short:
  assumes "length list \<le> 12"
  shows "mset (sortWeighted SortFunc list) = mset list \<and>
         sorted_wrt (\<lambda>a b. weightOf a \<ge> weightOf b) (sortWeighted SortFunc list) \<and>
         (\<forall>k. filter (\<lambda>a. weightOf a = k) (sortWeighted SortFunc list) = filter (\<lambda>a. weightOf a = k) list)"
proof -
  have len: "length (weightList list) \<le> 12" using assms by simp
  note m = SortFunc_short_mset [OF len, of byWeight]
  have "filter (\<lambda>a. weightOf a = k) (sortWeighted SortFunc list) = filter (\<lambda>a. weightOf a = k) list" for k
    using ranked_stable [OF m SortFunc_short_stable [OF len]] by (simp add: sortWeighted_def)
  moreover have "mset (sortWeighted SortFunc list) = mset list"
    using ranked_mset [OF m] by (simp add: sortWeighted_def)
  moreover have "sorted_wrt (\<lambda>a b. weightOf a \<ge> weightOf b) (sortWeighted SortFunc list)"
    using ranked_sorted [OF m SortFunc_short_sorted [OF len]] by (simp add: sortWeighted_def)
  ultimately show ?thesis by blast
qed

text \<open>
  C4, as amended. \<open>sortWeighted\<close> ranks with \<open>slices.SortFunc\<close> and the comparison
  \<open>cmp.Compare(b.weight, a.weight)\<close>.
  \<^item> Whatever sort function \<open>srt\<close> stands for \<open>slices.SortFunc\<close>: if it leaves the
    weighted addresses permuted and in the order of the comparison, as the library
    promises, the result of \<open>sortWeighted\<close> is a permutation of the addresses in
    descending order of weight.
  \<^item> With the library's algorithm and at most 12 addresses the result is that, and the
    addresses of each weight keep the order they had: the sort is stable.
  \<^item> \<open>selectIP\<close> returns the first element of the sorted sequence of the addresses of
    the requested family.
\<close>

theorem sortWeighted_ranking:
  "(mset (srt byWeight (weightList list)) = mset (weightList list) \<and>
    sorted_wrt (\<lambda>a b. \<not> byWeight b a < 0) (srt byWeight (weightList list))
      \<longrightarrow> mset (sortWeighted srt list) = mset list \<and>
          sorted_wrt (\<lambda>a b. weightOf a \<ge> weightOf b) (sortWeighted srt list)) \<and>
   (length list \<le> 12
      \<longrightarrow> mset (sortWeighted SortFunc list) = mset list \<and>
          sorted_wrt (\<lambda>a b. weightOf a \<ge> weightOf b) (sortWeighted SortFunc list) \<and>
          (\<forall>k. filter (\<lambda>a. weightOf a = k) (sortWeighted SortFunc list) =
               filter (\<lambda>a. weightOf a = k) list)) \<and>
   selectIP srt kind list =
     (case sortWeighted srt
             (filter (\<lambda>i. (kind = NetRouteKindV6 \<and> Is6 i) \<or> (kind = NetRouteKindV4 \<and> Is4 i)) list) of
        [] \<Rightarrow> Panics IndexOutOfRange
      | x # xs \<Rightarrow> Returns (Some x))"
  using sortWeighted_sorts [of srt list] sortWeighted_short [of list]
  by (simp add: selectIP_def)

theorem sortWeighted_ranking_witness:
  "mset (SortFunc byWeight (weightList sampleAddrs3)) = mset (weightList sampleAddrs3) \<and>
   sorted_wrt (\<lambda>a b. \<not> byWeight b a < 0) (SortFunc byWeight (weightList sampleAddrs3)) \<and>
   length sampleAddrs3 \<le> 12 \<and>
   mset (sortWeighted SortFunc sampleAddrs3) = mset sampleAddrs3 \<and>
   sortWeighted SortFunc sampleAddrs3 = [Addr4 0xC0A80105, Addr4 0x0A000001, Addr4 0x08080808] \<and>
   selectIP SortFunc NetRouteKindV4 sampleAddrs3 = Returns (Some (Addr4 0xC0A80105))"
proof -
  have w: "weightList sampleAddrs3 =
      [\<lparr>addr = Addr4 0x08080808, weight = 1\<rparr>, \<lparr>addr = Addr4 0xC0A80105, weight = 2\<rparr>,
       \<lparr>addr = Addr4 0x0A000001, weight = 2\<rparr>]"
    by (simp add: weightList_def sampleAddrs3_def addrEval)
  have s: "SortFunc byWeight (weightList sampleAddrs3) =
      [\<lparr>addr = Addr4 0xC0A80105, weight = 2\<rparr>, \<lparr>addr = Addr4 0x0A000001, weight = 2\<rparr>,
       \<lparr>addr = Addr4 0x08080808, weight = 1\<rparr>]"
    unfolding w by (simp add: shortSortEval)
  have f: "filter (\<lambda>i. (NetRouteKindV4 = NetRouteKindV6 \<and> Is6 i) \<or> (NetRouteKindV4 = NetRouteKindV4 \<and> Is4 i))
             sampleAddrs3 = sampleAddrs3"
    by (simp add: sampleAddrs3_def Is4_def)
  have r: "sortWeighted SortFunc sampleAddrs3 = [Addr4 0xC0A80105, Addr4 0x0A000001, Addr4 0x08080808]"
    by (simp add: sortWeighted_def s) (simp add: sampleAddrs3_def)
  have l: "length sampleAddrs3 \<le> 12"
    by (simp add: sampleAddrs3_def)
  have h1: "mset (SortFunc byWeight (weightList sampleAddrs3)) = mset (weightList sampleAddrs3)"
    by (simp only: s) (simp add: w)
  have h2: "sorted_wrt (\<lambda>a b. \<not> byWeight b a < 0) (SortFunc byWeight (weightList sampleAddrs3))"
    unfolding s by (simp add: byWeight_def cmpCompare_def)
  have c: "(case sortWeighted SortFunc
             (filter (\<lambda>i. (NetRouteKindV4 = NetRouteKindV6 \<and> Is6 i) \<or> (NetRouteKindV4 = NetRouteKindV4 \<and> Is4 i))
                sampleAddrs3) of
            [] \<Rightarrow> Panics IndexOutOfRange
          | x # xs \<Rightarrow> Returns (Some x)) = Returns (Some (Addr4 0xC0A80105))"
    by (simp only: f r list.case)
  show ?thesis
    using sortWeighted_ranking [where srt = SortFunc and list = sampleAddrs3 and kind = NetRouteKindV4]
      h1 h2 l r
    by (simp only: c)
qed

text \<open>
  C4 as stated fails on 13 candidates. All the addresses of \<open>sampleAddrs13\<close> but the
  seventh weigh 2. The library's sort is not stable: 10.0.0.10, the tenth address, ends
  before 10.0.0.1, the first, and is the one \<open>selectIP\<close> returns; the addresses of
  weight 2 do not keep their order.
\<close>

theorem sortWeighted_unstable_counterexample:
  "weightOf (Addr4 0x0A000001) = 2 \<and> weightOf (Addr4 0x0A00000A) = 2 \<and>
   sampleAddrs13 ! 0 = Addr4 0x0A000001 \<and> sampleAddrs13 ! 9 = Addr4 0x0A00000A \<and>
   sortWeighted SortFunc sampleAddrs13 =
     [Addr4 0x0A00000A, Addr4 0x0A000002, Addr4 0x0A000003, Addr4 0x0A000004, Addr4 0x0A000005,
      Addr4 0x0A000006, Addr4 0x0A000008, Addr4 0x0A000009, Addr4 0x0A000001, Addr4 0x0A00000B,
      Addr4 0x0A00000C, Addr4 0x0A00000D, Addr4 0xA9FE0007] \<and>
   filter (\<lambda>a. weightOf a = 2) (sortWeighted SortFunc sampleAddrs13) \<noteq>
     filter (\<lambda>a. weightOf a = 2) sampleAddrs13 \<and>
   selectIP SortFunc NetRouteKindV4 sampleAddrs13 = Returns (Some (Addr4 0x0A00000A))"
proof -
  have f: "filter (\<lambda>i. (NetRouteKindV4 = NetRouteKindV6 \<and> Is6 i) \<or> (NetRouteKindV4 = NetRouteKindV4 \<and> Is4 i))
             sampleAddrs13 = sampleAddrs13"
    by (simp add: sampleAddrs13_def Is4_def)
  have s: "selectIP SortFunc NetRouteKindV4 sampleAddrs13 = Returns (Some (Addr4 0x0A00000A))"
    by (simp only: selectIP_def Let_def f sortWeighted13 list.case)
  have n: "filter (\<lambda>a. weightOf a = 2) (sortWeighted SortFunc sampleAddrs13) \<noteq>
           filter (\<lambda>a. weightOf a = 2) sampleAddrs13"
    unfolding sortWeighted13 by (simp add: sampleAddrs13_def addrEval)
  have w: "weightOf (Addr4 0x0A000001) = 2" "weightOf (Addr4 0x0A00000A) = 2"
    by (simp_all add: addrEval)
  have i: "sampleAddrs13 ! 0 = Addr4 0x0A000001" "sampleAddrs13 ! 9 = Addr4 0x0A00000A"
    by (simp_all add: sampleAddrs13_def)
  show ?thesis
    using w i sortWeighted13 n s by (intro conjI)
qed

end
